theory Spec2Isabelle
  imports Main "HOL-Library.Word"
begin

section \<open>Data model\<close>

text \<open>
  The gateway's Go code is embedded function by function. Go values are modelled as
  follows.
  \<^item> \<open>float64\<close> and \<open>int64\<close> fields are only ever copied from a policy into a session,
    never computed with, so they are kept as their 64-bit patterns.
  \<^item> A Go \<open>string\<close> is a byte sequence: \<open>string\<close>. A \<open>[]byte\<close> is a list of 8-bit words.
  \<^item> A Go map is a reference that may be \<open>nil\<close>: \<open>None\<close> is the nil map, \<open>Some m\<close> a
    map with the entries of \<open>m\<close>. Reading a key of a nil map, or a missing key, yields the
    zero value of the element type.
  \<^item> A Go \<open>error\<close> result is \<open>error option\<close>, \<open>None\<close> being \<open>nil\<close>.
  \<^item> A run-time panic (a failed type assertion \<open>x.(T)\<close> without the comma-ok form, a
    field read through a nil pointer) is the value \<open>Inl p\<close> of a sum type.
  \<^item> Logging calls are left out, except in \<open>LoadPoliciesFromFile\<close>.
\<close>

type_synonym float64 = "64 word"
type_synonym int64 = "64 word"
type_synonym bytes = "8 word list"
type_synonym 'v gomap = "(string \<rightharpoonup> 'v) option"

text \<open>
  Modelled from the spec: the declaration of \<open>AccessDefinition\<close> is not part of the
  sources at hand; the spec describes an access-rights entry as the permitted versions of
  an API. The code only copies such values.
\<close>

record AccessDefinition =
  APIName :: string
  APIID :: string
  Versions :: "string list"

text \<open>\<open>type Policy struct\<close> of policy.go.\<close>

record Policy =
  MID :: string
  ID :: string
  OrgID :: string
  Rate :: float64
  Per :: float64
  QuotaMax :: int64
  QuotaRenewalRate :: int64
  PolicyPerAPI :: "string gomap"
  AccessRights :: "AccessDefinition gomap"
  HMACEnabled :: bool
  Active :: bool
  IsInactive :: bool
  Tags :: "string list"
  KeyExpiresIn :: int64

text \<open>
  Modelled from the spec: the declaration of \<open>SessionState\<close> is not part of the sources at
  hand. The fields are those the code reads or writes, and those listed in the spec's data
  model; \<open>JWTData_Secret\<close> is the field \<open>JWTData.Secret\<close>.
\<close>

record SessionState =
  Allowance :: float64
  Rate :: float64
  Per :: float64
  QuotaMax :: int64
  QuotaRemaining :: int64
  QuotaRenewalRate :: int64
  QuotaRenews :: int64
  PolicyPerAPI :: "string gomap"
  AccessRights :: "AccessDefinition gomap"
  HMACEnabled :: bool
  IsInactive :: bool
  Tags :: "string list"
  ApplyPolicyID :: string
  OauthClientID :: string
  JWTData_Secret :: string
  DataExpires :: int64

text \<open>The zero value \<open>SessionState{}\<close>, also the value of \<open>var thisSession SessionState\<close>.\<close>

definition SessionState_zero :: SessionState where
  "SessionState_zero =
     \<lparr>Allowance = 0, Rate = 0, Per = 0, QuotaMax = 0, QuotaRemaining = 0,
      QuotaRenewalRate = 0, QuotaRenews = 0, PolicyPerAPI = None, AccessRights = None,
      HMACEnabled = False, IsInactive = False, Tags = [], ApplyPolicyID = '''',
      OauthClientID = '''', JWTData_Secret = '''', DataExpires = 0\<rparr>"

text \<open>
  The part of \<open>t.Spec\<close> (an \<open>APISpec\<close>, which embeds the \<open>APIDefinition\<close>) that the
  middleware reads. The declaration is not part of the sources at hand; the code reaches
  the organisation both as \<open>Spec.OrgID\<close> and as \<open>Spec.APIDefinition.OrgID\<close>, the promoted
  and the explicit path to the one field of the embedded struct.
\<close>

record APISpec =
  APIID :: string
  OrgID :: string
  SessionLifetime :: int64
  JWTSource :: string
  JWTIdentityBaseField :: string
  JWTPolicyFieldName :: string
  JWTSigningMethod :: string
  AuthHeaderName :: string
  UseParam :: bool
  UseCookie :: bool

text \<open>\<open>type JWK struct\<close> and \<open>type JWKs struct\<close> of the JWT middleware.\<close>

record JWK =
  Alg :: string
  Kty :: string
  Use :: string
  X5c :: "string list"
  N :: string
  E :: string
  KID :: string
  X5t :: string

record JWKs =
  Keys :: "JWK list"

text \<open>
  A Go \<open>error\<close> value: one made by \<open>errors.New\<close> or \<open>fmt.Errorf\<close> in this code (with its
  message), or one handed back by a library call (with the library's description).
\<close>

datatype error = errors_New string | lib_error string

datatype panic = TypeAssertionPanic string | NilPointerPanic

text \<open>
  Work started with a \<open>go\<close> statement. The statement returns at once; the work runs at
  some later moment, so it is put into a pool from which \<open>run_goroutine\<close> takes it.
\<close>

datatype event = EVENT_RateLimitExceeded | EVENT_QuotaExceeded | EVENT_AuthFailure

datatype goroutine =
    SessionCache_Set string SessionState
  | Go_UpdateSession string SessionState int64
  | Go_context_Set_SessionData SessionState
  | Go_FireEvent event string

datatype health = Throttle | QuotaViolation | KeyFailure

text \<open>
  Modelled from the spec: the session store behind \<open>Spec.SessionManager\<close> is an interface
  whose implementation is not part of the sources at hand; the spec treats it as an
  abstract key/value store with \<open>GetSessionDetail(key)\<close> and
  \<open>UpdateSession(key, state, ttl)\<close>. It is kept as the list of the \<open>UpdateSession\<close> calls
  made so far, the latest first, so a lookup sees the latest write of a key and an
  unchanged list means that nothing was written. The clock is not part of the state: the
  passing of an entry's TTL is the step \<open>SessionManager_expire\<close> below.
\<close>

type_synonym SessionStore = "(string \<times> SessionState \<times> int64) list"

text \<open>
  The state the middleware works on: the package-level variables \<open>SessionCache\<close>,
  \<open>Policies\<close>, \<open>JWKCache\<close> and \<open>config\<close>, the stores behind \<open>Spec.SessionManager\<close> and
  \<open>Spec.AuthManager\<close>, the gorilla context of the request being served, and what the
  code has emitted: started goroutines, health samples, fired events (an event is fired by a goroutine,
  with the key it is about) and monitor checks.
\<close>

record Gateway =
  SessionCache :: "string \<rightharpoonup> SessionState"
  SessionManager :: SessionStore
  AuthManager :: "string \<rightharpoonup> SessionState"
  Policies :: "string \<rightharpoonup> Policy"
  JWKCache :: "(string \<rightharpoonup> JWKs) option"
  DisableCacheSessionState :: bool
  UseAsyncSessionWrite :: bool
  MonitorUserKeys :: bool
  ctx_SessionData :: "SessionState option"
  ctx_AuthHeaderValue :: "string option"
  goroutines :: "goroutine list"
  HealthValues :: "(health \<times> string) list"
  FiredEvents :: "(event \<times> string) list"
  MonitorChecks :: "(SessionState \<times> string) list"

section \<open>Session store, cache and goroutines\<close>

definition GetSessionDetail :: "SessionStore \<Rightarrow> string \<Rightarrow> SessionState \<times> bool" where
  "GetSessionDetail store key =
     (case map_of store key of
        Some (s, ttl) \<Rightarrow> (s, True)
      | None \<Rightarrow> (SessionState_zero, False))"

definition UpdateSession :: "string \<Rightarrow> SessionState \<Rightarrow> int64 \<Rightarrow> SessionStore \<Rightarrow> SessionStore" where
  "UpdateSession key s ttl store = (key, s, ttl) # store"

text \<open>
  Modelled from the spec: \<open>Spec.AuthManager.IsKeyAuthorised\<close> is an interface method whose
  implementation is not part of the sources at hand; the spec calls it the lower-level key
  store, whose miss is \<open>(zero, false)\<close>.
\<close>

definition IsKeyAuthorised :: "(string \<rightharpoonup> SessionState) \<Rightarrow> string \<Rightarrow> SessionState \<times> bool" where
  "IsKeyAuthorised auth key =
     (case auth key of Some s \<Rightarrow> (s, True) | None \<Rightarrow> (SessionState_zero, False))"

text \<open>
  Expiry. \<open>SessionCache\<close> is built by \<open>cache.New(10*time.Second, 5*time.Second)\<close> and every
  entry is set with the default expiration: ten seconds after it was set, \<open>SessionCache.Get\<close>
  no longer finds it. The spec has the session store remove a session when its TTL has
  passed. The clock is not part of the state; the passing of the TTL of a key's entry is a
  step of its own, which writes nothing and removes the entry.
\<close>

definition SessionCache_expire :: "string \<Rightarrow> Gateway \<Rightarrow> Gateway" where
  "SessionCache_expire key g = g\<lparr>SessionCache := (SessionCache g)(key := None)\<rparr>"

definition SessionManager_expire :: "string \<Rightarrow> Gateway \<Rightarrow> Gateway" where
  "SessionManager_expire key g =
     g\<lparr>SessionManager := filter (\<lambda>entry. fst entry \<noteq> key) (SessionManager g)\<rparr>"

definition spawn :: "goroutine \<Rightarrow> Gateway \<Rightarrow> Gateway" where
  "spawn task g = g\<lparr>goroutines := goroutines g @ [task]\<rparr>"

fun run_goroutine :: "goroutine \<Rightarrow> Gateway \<Rightarrow> Gateway" where
  "run_goroutine (SessionCache_Set key s) g = g\<lparr>SessionCache := (SessionCache g)(key \<mapsto> s)\<rparr>"
| "run_goroutine (Go_UpdateSession key s ttl) g =
     g\<lparr>SessionManager := UpdateSession key s ttl (SessionManager g)\<rparr>"
| "run_goroutine (Go_context_Set_SessionData s) g = g\<lparr>ctx_SessionData := Some s\<rparr>"
| "run_goroutine (Go_FireEvent ev key) g = g\<lparr>FiredEvents := FiredEvents g @ [(ev, key)]\<rparr>"

fun run_goroutines :: "goroutine list \<Rightarrow> Gateway \<Rightarrow> Gateway" where
  "run_goroutines [] g = g"
| "run_goroutines (task # tasks) g = run_goroutines tasks (run_goroutine task g)"

section \<open>Policy overlay and session resolution\<close>

text \<open>Reading \<open>m[key]\<close> of a \<open>map[string]string\<close>.\<close>

definition map_index :: "string gomap \<Rightarrow> string \<Rightarrow> string" where
  "map_index m key =
     (case m of None \<Rightarrow> '''' | Some f \<Rightarrow> (case f key of None \<Rightarrow> '''' | Some v \<Rightarrow> v))"

text \<open>The ten assignments that copy a policy into a session.\<close>

definition overlay :: "Policy \<Rightarrow> SessionState \<Rightarrow> SessionState" where
  "overlay policy s =
     s\<lparr>Allowance := Policy.Rate policy,
       SessionState.Rate := Policy.Rate policy,
       SessionState.Per := Policy.Per policy,
       SessionState.QuotaMax := Policy.QuotaMax policy,
       SessionState.QuotaRenewalRate := Policy.QuotaRenewalRate policy,
       SessionState.PolicyPerAPI := Policy.PolicyPerAPI policy,
       SessionState.AccessRights := Policy.AccessRights policy,
       SessionState.HMACEnabled := Policy.HMACEnabled policy,
       SessionState.IsInactive := Policy.IsInactive policy,
       SessionState.Tags := Policy.Tags policy\<rparr>"

text \<open>
  \<open>ApplyPolicyIfExists(key, thisSession, stripPolicyID)\<close>. The session is passed by
  pointer and changed in place: the model returns it.
\<close>

definition ApplyPolicyIfExists ::
  "APISpec \<Rightarrow> string \<Rightarrow> SessionState \<Rightarrow> bool \<Rightarrow> Gateway \<Rightarrow> SessionState \<times> Gateway" where
  "ApplyPolicyIfExists t key thisSession stripPolicyID g =
     (if ApplyPolicyID thisSession \<noteq> '''' then
        (case Policies g (ApplyPolicyID thisSession) of
           Some policy \<Rightarrow>
             if Policy.OrgID policy \<noteq> APISpec.OrgID t then (thisSession, g)
             else
               let s1 = overlay policy thisSession;
                   s2 = (if stripPolicyID then s1\<lparr>ApplyPolicyID := ''''\<rparr> else s1)
               in (s2, g\<lparr>SessionManager :=
                            UpdateSession key s2 (SessionLifetime t) (SessionManager g)\<rparr>)
         | None \<Rightarrow> (thisSession, g))
      else (thisSession, g))"

text \<open>\<open>checkSessionAndValidateKey(key, t)\<close>: local cache, session store, then auth store.\<close>

definition checkSessionAndValidateKey ::
  "string \<Rightarrow> APISpec \<Rightarrow> Gateway \<Rightarrow> SessionState \<times> bool \<times> Gateway" where
  "checkSessionAndValidateKey key t g =
     (case (if \<not> DisableCacheSessionState g then SessionCache g key else None) of
        Some cachedVal \<Rightarrow>
          (let (thisSession, g1) = ApplyPolicyIfExists t key cachedVal False g
           in (thisSession, True, g1))
      | None \<Rightarrow>
          (let (thisSession, found) = GetSessionDetail (SessionManager g) key in
           if found then
             (let g1 = spawn (SessionCache_Set key thisSession) g;
                  (thisSession', g2) = ApplyPolicyIfExists t key thisSession False g1
              in (thisSession', True, g2))
           else
             (let (thisSession, found) = IsKeyAuthorised (AuthManager g) key in
              if found then
                (let g1 = spawn (SessionCache_Set key thisSession) g;
                     (thisSession', g2) = ApplyPolicyIfExists t key thisSession False g1;
                     g3 = g2\<lparr>SessionManager :=
                               UpdateSession key thisSession' (SessionLifetime t)
                                 (SessionManager g2)\<rparr>
                 in (thisSession', found, g3))
              else (thisSession, found, g))))"

definition APISessionKeySuffix :: string where
  "APISessionKeySuffix = ''.API-''"

text \<open>\<open>CheckSessionAndIdentityForValidKey(key)\<close>.\<close>

definition CheckSessionAndIdentityForValidKey ::
  "APISpec \<Rightarrow> string \<Rightarrow> Gateway \<Rightarrow> SessionState \<times> bool \<times> Gateway" where
  "CheckSessionAndIdentityForValidKey t key g =
     (let (baseSession, baseFound, g1) = checkSessionAndValidateKey key t g in
      if baseFound \<and> SessionState.PolicyPerAPI baseSession \<noteq> None then
        (let apiPolicyID = map_index (SessionState.PolicyPerAPI baseSession) (APISpec.APIID t) in
         if apiPolicyID \<noteq> '''' then
           (let apiSessionKey = key @ APISessionKeySuffix @ APISpec.APIID t;
                (perApiSession, apiSessionFound, g2) =
                   checkSessionAndValidateKey apiSessionKey t g1
            in if \<not> apiSessionFound then
                 (let perApiSession' = perApiSession\<lparr>ApplyPolicyID := apiPolicyID\<rparr>;
                      (perApiSession'', g3) =
                         ApplyPolicyIfExists t apiSessionKey perApiSession' True g2
                  in (baseSession, baseFound, g3))
               else (baseSession, baseFound, g2))
         else (baseSession, baseFound, g1))
      else (baseSession, baseFound, g1))"

section \<open>JWT middleware\<close>

text \<open>
  Values of type \<open>interface{}\<close> in the header and the claims of a token, as the JSON decoder
  makes them. A missing entry and a JSON \<open>null\<close> both read as the nil interface: \<open>None\<close>.
\<close>

datatype iface = is_string string | is_float64 float64 | is_bool bool

datatype SigningMethod =
  SigningMethodHMAC | SigningMethodRSA | SigningMethodECDSA | SigningMethodNone

record Token =
  Raw :: string
  Method :: SigningMethod
  Header :: "string \<rightharpoonup> iface"
  Claims :: "string \<rightharpoonup> iface"
  Valid :: bool

text \<open>The request: what \<open>r.Header.Get\<close>, \<open>FormValue\<close> and \<open>Cookie\<close> read.\<close>

record Request =
  Headers :: "string \<rightharpoonup> string"
  FormValues :: "string \<rightharpoonup> string"
  Cookies :: "string \<rightharpoonup> string"

text \<open>
  Calls that leave this repository (the Go standard library, the jwt-go library, the
  network, the file system) and helpers of the repository that are not part of the sources
  at hand (\<open>stripBearer\<close>, the session limiter) are parameters of the model.
  \<^item> \<open>http_Get url\<close> is the error of \<open>http.Get\<close>, or what \<open>ioutil.ReadAll\<close> of the response
    body returns: the contents and an error.
  \<^item> \<open>json_Unmarshal_JWKs contents v\<close> and \<open>json_Unmarshal_Policies contents v\<close> are the
    value that \<open>json.Unmarshal(contents, &v)\<close> leaves in \<open>v\<close>, and its error.
  \<^item> \<open>jwt_decode\<close> is the first half of \<open>jwt.Parse\<close> (splitting the segments, decoding the
    header and the claims, looking up the signing method): the token, if it got that far,
    and an error. \<open>jwt_validate token key\<close> is the second half: the expiry checks and the
    verification of the signature with the key that the key function returned.
  \<^item> \<open>ForwardMessage s key store\<close> is \<open>sessionLimiter.ForwardMessage(&s, key, store)\<close>:
    whether to forward, the reason code, and what the call leaves in \<open>s\<close> and in the store.
\<close>

record Lib =
  md5_Sum :: "bytes \<Rightarrow> bytes"
  stripBearer :: "string \<Rightarrow> string"
  b64_DecodeString :: "string \<Rightarrow> bytes \<times> error option"
  http_Get :: "string \<Rightarrow> error + (string \<times> error option)"
  json_Unmarshal_JWKs :: "string \<Rightarrow> JWKs \<Rightarrow> JWKs \<times> error option"
  jwt_decode :: "string \<Rightarrow> Token option \<times> error option"
  jwt_validate :: "Token \<Rightarrow> bytes option \<Rightarrow> error option"
  ForwardMessage :: "SessionState \<Rightarrow> string \<Rightarrow> SessionStore \<Rightarrow> bool \<times> int \<times> SessionState \<times> SessionStore"
  ioutil_ReadFile :: "string \<Rightarrow> string \<times> error option"
  json_Unmarshal_Policies :: "string \<Rightarrow> Policy gomap \<Rightarrow> Policy gomap \<times> error option"

text \<open>\<open>[]byte(s)\<close>.\<close>

definition bytes_of :: "string \<Rightarrow> bytes" where
  "bytes_of s = map of_char s"

text \<open>
  \<open>strings.ToLower\<close> on the ASCII letters; bytes outside ASCII are left as they are (Go
  would also map the upper-case letters of other scripts).
\<close>

definition ToLower_char :: "char \<Rightarrow> char" where
  "ToLower_char c =
     (let n = (of_char c :: nat) in if 65 \<le> n \<and> n \<le> 90 then char_of (n + 32) else c)"

definition ToLower :: "string \<Rightarrow> string" where
  "ToLower s = map ToLower_char s"

definition HasPrefix :: "string \<Rightarrow> string \<Rightarrow> bool" where
  "HasPrefix s pre = (take (length pre) s = pre)"

text \<open>
  \<open>fmt.Sprintf("%x", b)\<close> for a byte array: two lower-case hexadecimal digits for each
  byte, the high one first.
\<close>

definition hex_digit :: "nat \<Rightarrow> char" where
  "hex_digit n = ''0123456789abcdef'' ! n"

definition Sprintf_x :: "bytes \<Rightarrow> string" where
  "Sprintf_x bs = concat (map (\<lambda>b. [hex_digit (unat b div 16), hex_digit (unat b mod 16)]) bs)"




text \<open>The type assertion \<open>v.(string)\<close>, which panics unless \<open>v\<close> holds a string.\<close>

definition assert_string :: "iface option \<Rightarrow> panic + string" where
  "assert_string v =
     (case v of
        Some (is_string s) \<Rightarrow> Inr s
      | _ \<Rightarrow> Inl (TypeAssertionPanic ''interface conversion: interface is not string''))"

text \<open>The comma-ok form \<open>s, ok := v.(string)\<close>, which never panics.\<close>

definition assert_string_ok :: "iface option \<Rightarrow> string \<times> bool" where
  "assert_string_ok v = (case v of Some (is_string s) \<Rightarrow> (s, True) | _ \<Rightarrow> ('''', False))"

text \<open>The loop at the end of \<open>getSecretFromURL\<close>, over \<open>thisJWKSet.Keys\<close>.\<close>

fun getSecretFromURL_loop :: "Lib \<Rightarrow> JWK list \<Rightarrow> string \<Rightarrow> string \<Rightarrow> bytes option \<times> error option" where
  "getSecretFromURL_loop lib [] kid keyType =
     (None, Some (errors_New ''No matching KID could be found''))"
| "getSecretFromURL_loop lib (val # rest) kid keyType =
     (if KID val = kid then
        if ToLower (Kty val) = ToLower keyType then
          if length (X5c val) > 0 then
            (let (decodedCert, decErr) = b64_DecodeString lib (hd (X5c val)) in
             if decErr \<noteq> None then (None, decErr) else (Some decodedCert, None))
          else (None, Some (errors_New ''No certificates in JWK!''))
        else getSecretFromURL_loop lib rest kid keyType
      else getSecretFromURL_loop lib rest kid keyType)"

text \<open>
  \<open>getSecretFromURL(url, kid, keyType)\<close>, returning the Go pair \<open>([]byte, error)\<close>. In the
  branch of a failed decoding the source returns the variable \<open>err\<close>, which holds the
  error of \<open>ioutil.ReadAll\<close>.
\<close>

definition getSecretFromURL ::
  "Lib \<Rightarrow> APISpec \<Rightarrow> string \<Rightarrow> string \<Rightarrow> string \<Rightarrow> Gateway
     \<Rightarrow> (bytes option \<times> error option) \<times> Gateway" where
  "getSecretFromURL lib t url kid keyType g =
     (let cache = (case JWKCache g of None \<Rightarrow> Map.empty | Some c \<Rightarrow> c);
          g0 = g\<lparr>JWKCache := Some cache\<rparr>
      in case cache (APISpec.APIID t) of
           None \<Rightarrow>
             (case http_Get lib url of
                Inl err \<Rightarrow> ((None, Some err), g0)
              | Inr (contents, err) \<Rightarrow>
                  if err \<noteq> None then ((None, err), g0)
                  else
                    (let (thisJWKSet, decErr) = json_Unmarshal_JWKs lib contents \<lparr>Keys = []\<rparr> in
                     if decErr \<noteq> None then ((None, err), g0)
                     else
                       (getSecretFromURL_loop lib (Keys thisJWKSet) kid keyType,
                        g0\<lparr>JWKCache := Some (cache(APISpec.APIID t \<mapsto> thisJWKSet))\<rparr>)))
         | Some cachedJWK \<Rightarrow> (getSecretFromURL_loop lib (Keys cachedJWK) kid keyType, g0))"

text \<open>\<open>getIdentityFomToken(token)\<close>.\<close>

definition getIdentityFomToken :: "Token \<Rightarrow> panic + (string \<times> bool)" where
  "getIdentityFomToken token =
     (if Header token ''kid'' \<noteq> None then
        (case assert_string (Header token ''kid'') of
           Inl p \<Rightarrow> Inl p
         | Inr tykId \<Rightarrow> Inr (tykId, True))
      else if Claims token ''sub'' \<noteq> None then
        (case assert_string (Claims token ''sub'') of
           Inl p \<Rightarrow> Inl p
         | Inr tykId \<Rightarrow> Inr (tykId, True))
      else Inr ('''', False))"

text \<open>\<open>getSecret(token)\<close>, returning the Go pair \<open>([]byte, error)\<close>, or panicking.\<close>

definition getSecret ::
  "Lib \<Rightarrow> APISpec \<Rightarrow> Token \<Rightarrow> Gateway \<Rightarrow> panic + ((bytes option \<times> error option) \<times> Gateway)" where
  "getSecret lib t token g =
     (if JWTSource t \<noteq> '''' then
        if HasPrefix (ToLower (JWTSource t)) ''http://''
           \<or> HasPrefix (ToLower (JWTSource t)) ''https://'' then
          (case assert_string (Header token ''kid'') of
             Inl p \<Rightarrow> Inl p
           | Inr kid \<Rightarrow>
               (let ((secret, urlErr), g1) =
                      getSecretFromURL lib t (JWTSource t) kid (JWTSigningMethod t) g
                in if urlErr \<noteq> None then Inr ((None, urlErr), g1)
                   else Inr ((secret, None), g1)))
        else
          (let (decodedCert, decErr) = b64_DecodeString lib (JWTSource t) in
           if decErr \<noteq> None then Inr ((None, decErr), g)
           else Inr ((Some decodedCert, None), g))
      else
        (case getIdentityFomToken token of
           Inl p \<Rightarrow> Inl p
         | Inr (tykId, found) \<Rightarrow>
             if \<not> found then Inr ((None, Some (errors_New ''Key ID not found'')), g)
             else
               (let (thisSessionState, rawKeyExists, g1) =
                      CheckSessionAndIdentityForValidKey t tykId g
                in if \<not> rawKeyExists then
                     Inr ((None, Some (errors_New ''Token invalid, key not found.'')), g1)
                   else Inr ((Some (bytes_of (JWTData_Secret thisSessionState)), None), g1))))"

text \<open>
  The key function that \<open>ProcessRequest\<close> hands to \<open>jwt.Parse\<close>: the check of the signing
  method against the API's, then \<open>getSecret\<close>. The message of \<open>fmt.Errorf\<close> is kept without
  the formatted \<open>alg\<close> header.
\<close>

definition keyFunc ::
  "Lib \<Rightarrow> APISpec \<Rightarrow> Token \<Rightarrow> Gateway \<Rightarrow> panic + ((bytes option \<times> error option) \<times> Gateway)" where
  "keyFunc lib t token g =
     (let ok =
        (if JWTSigningMethod t = ''hmac'' then Method token = SigningMethodHMAC
         else if JWTSigningMethod t = ''rsa'' then Method token = SigningMethodRSA
         else if JWTSigningMethod t = ''ecdsa'' then Method token = SigningMethodECDSA
         else Method token = SigningMethodHMAC)
      in if \<not> ok then Inr ((None, Some (errors_New ''Unexpected signing method'')), g)
         else getSecret lib t token g)"

text \<open>
  \<open>jwt.Parse(tokenString, keyFunc)\<close> of the jwt-go library: decode, call the key function,
  validate with the key it returned. An error of the key function comes back wrapped in
  the library's validation error; a token is marked valid only when nothing failed.
\<close>

definition jwt_Parse ::
  "Lib \<Rightarrow> string
     \<Rightarrow> (Token \<Rightarrow> Gateway \<Rightarrow> panic + ((bytes option \<times> error option) \<times> Gateway))
     \<Rightarrow> Gateway \<Rightarrow> panic + ((Token option \<times> error option) \<times> Gateway)" where
  "jwt_Parse lib tokenString kf g =
     (case jwt_decode lib tokenString of
        (None, err) \<Rightarrow> Inr ((None, err), g)
      | (Some token, Some err) \<Rightarrow> Inr ((Some token, Some err), g)
      | (Some token, None) \<Rightarrow>
          (case kf token g of
             Inl p \<Rightarrow> Inl p
           | Inr ((key, keyErr), g1) \<Rightarrow>
               if keyErr \<noteq> None then Inr ((Some token, Some (lib_error ''ValidationErrorUnverifiable'')), g1)
               else
                 (case jwt_validate lib token key of
                    Some vErr \<Rightarrow> Inr ((Some token, Some vErr), g1)
                  | None \<Rightarrow> Inr ((Some (token\<lparr>Valid := True\<rparr>), None), g1))))"

text \<open>\<open>r.Header.Get(name)\<close> and \<open>FormValue(name)\<close>: the empty string when there is none.\<close>

definition lookup_or_empty :: "(string \<rightharpoonup> string) \<Rightarrow> string \<Rightarrow> string" where
  "lookup_or_empty m name = (case m name of None \<Rightarrow> '''' | Some v \<Rightarrow> v)"

text \<open>
  The branch of \<open>ProcessRequest\<close> for a central JWT source (\<open>JWTSource\<close> not empty), entered
  with a verified token: the session is looked up under, or created from a policy under,
  the synthesized \<open>SessionID\<close>.
\<close>

definition ProcessRequest_central ::
  "Lib \<Rightarrow> APISpec \<Rightarrow> Token \<Rightarrow> Gateway \<Rightarrow> (error option \<times> int) \<times> Gateway" where
  "ProcessRequest_central lib t token g =
     (let (baseFieldData0, baseFound) = assert_string_ok (Claims token (JWTIdentityBaseField t));
          (baseFieldData, found) =
             (if \<not> baseFound then assert_string_ok (Claims token ''sub'')
              else (baseFieldData0, True))
      in if \<not> found then ((Some (errors_New ''Key not authorized''), 403), g)
         else
           (let data = bytes_of baseFieldData;
                tokenID = Sprintf_x (md5_Sum lib data);
                SessionID = APISpec.OrgID t @ tokenID;
                (thisSessionState, keyExists, g1) =
                   CheckSessionAndIdentityForValidKey t SessionID g
            in if \<not> keyExists then
                 (let (basePolicyID, foundPolicy) =
                        assert_string_ok (Claims token (JWTPolicyFieldName t))
                  in if \<not> foundPolicy then
                       ((Some (errors_New ''Key not authorized: no matching policy''), 403), g1)
                     else
                       (case Policies g1 basePolicyID of
                          Some policy \<Rightarrow>
                            if Policy.OrgID policy \<noteq> APISpec.OrgID t then
                              ((Some (errors_New ''Key not authorized: no matching policy''), 403), g1)
                            else
                              (let thisSessionState' = overlay policy SessionState_zero
                               in ((None, 200),
                                   g1\<lparr>SessionManager :=
                                         UpdateSession SessionID thisSessionState'
                                           (SessionLifetime t) (SessionManager g1),
                                      ctx_SessionData := Some thisSessionState',
                                      ctx_AuthHeaderValue := Some SessionID\<rparr>))
                        | None \<Rightarrow>
                            ((Some (errors_New ''Key not authorized: no matching policy''), 403), g1)))
               else
                 ((None, 200),
                  g1\<lparr>ctx_SessionData := Some thisSessionState,
                     ctx_AuthHeaderValue := Some SessionID\<rparr>)))"

text \<open>The branch for an API without a central source: the session named by the token.\<close>

definition ProcessRequest_direct ::
  "APISpec \<Rightarrow> Token \<Rightarrow> Gateway \<Rightarrow> panic + ((error option \<times> int) \<times> Gateway)" where
  "ProcessRequest_direct t token g =
     (case getIdentityFomToken token of
        Inl p \<Rightarrow> Inl p
      | Inr (tykId, found) \<Rightarrow>
          if \<not> found then Inr ((Some (errors_New ''Key id not found''), 403), g)
          else
            (let (thisSessionState, keyExists, g1) =
                   CheckSessionAndIdentityForValidKey t tykId g
             in if \<not> keyExists then Inr ((Some (errors_New ''Key not authorized''), 403), g1)
                else
                  Inr ((None, 200),
                       g1\<lparr>ctx_SessionData := Some thisSessionState,
                          ctx_AuthHeaderValue := Some tykId\<rparr>)))"

text \<open>
  The \<open>else\<close> branch of \<open>ProcessRequest\<close>, for a token that did not verify. There \<open>tykId\<close>
  still holds the empty string it was declared with. Modelled from the spec: \<open>AuthFailed\<close>
  is a helper that is not part of the sources at hand; the spec has it emit the
  \<open>AuthFailed\<close> event.
\<close>

definition ProcessRequest_failed :: "Gateway \<Rightarrow> (error option \<times> int) \<times> Gateway" where
  "ProcessRequest_failed g =
     ((Some (errors_New ''Key not authorized''), 403),
      (spawn (Go_FireEvent EVENT_AuthFailure '''') g)
        \<lparr>HealthValues := HealthValues g @ [(KeyFailure, ''1'')]\<rparr>)"

text \<open>
  \<open>JWTMiddleware.ProcessRequest\<close>. The test \<open>err == nil && token.Valid\<close> reads a field
  through the token pointer.
\<close>

definition JWT_ProcessRequest ::
  "Lib \<Rightarrow> APISpec \<Rightarrow> Request \<Rightarrow> Gateway \<Rightarrow> panic + ((error option \<times> int) \<times> Gateway)" where
  "JWT_ProcessRequest lib t r g =
     (let rawJWT0 = lookup_or_empty (Headers r) (AuthHeaderName t);
          rawJWT1 = (if UseParam t then lookup_or_empty (FormValues r) (AuthHeaderName t)
                     else rawJWT0);
          rawJWT2 = (if UseCookie t then
                       (case Cookies r (AuthHeaderName t) of None \<Rightarrow> '''' | Some v \<Rightarrow> v)
                     else rawJWT1)
      in if rawJWT2 = '''' then Inr ((Some (errors_New ''Authorization field missing''), 400), g)
         else
           (case jwt_Parse lib (stripBearer lib rawJWT2) (keyFunc lib t) g of
              Inl p \<Rightarrow> Inl p
            | Inr ((tokenp, err), g1) \<Rightarrow>
                if err = None then
                  (case tokenp of
                     None \<Rightarrow> Inl NilPointerPanic
                   | Some token \<Rightarrow>
                       if Valid token then
                         (if JWTSource t \<noteq> '''' then Inr (ProcessRequest_central lib t token g1)
                          else ProcessRequest_direct t token g1)
                       else Inr (ProcessRequest_failed g1))
                else Inr (ProcessRequest_failed g1)))"

section \<open>Rate limit and quota middleware\<close>

text \<open>\<open>applyRateLimiting(key, thisSessionState, k, r, configuration)\<close>.\<close>

definition applyRateLimiting ::
  "Lib \<Rightarrow> string \<Rightarrow> SessionState \<Rightarrow> Gateway \<Rightarrow> (error option \<times> int) \<times> Gateway" where
  "applyRateLimiting lib key thisSessionState g =
     (let (forwardMessage, reason, s, store) =
            ForwardMessage lib thisSessionState key (SessionManager g);
          g1 = g\<lparr>SessionManager := store\<rparr>;
          g2 = (if \<not> UseAsyncSessionWrite g1 then
                  g1\<lparr>SessionManager := UpdateSession key s 0 (SessionManager g1),
                     ctx_SessionData := Some s\<rparr>
                else spawn (Go_context_Set_SessionData s) (spawn (Go_UpdateSession key s 0) g1))
      in if \<not> forwardMessage then
           if reason = 1 then
             ((Some (errors_New ''Rate limit exceeded''), 429),
              (spawn (Go_FireEvent EVENT_RateLimitExceeded key) g2)
                \<lparr>HealthValues := HealthValues g2 @ [(Throttle, ''-1'')]\<rparr>)
           else if reason = 2 then
             ((Some (errors_New ''Quota exceeded''), 403),
              (spawn (Go_FireEvent EVENT_QuotaExceeded key) g2)
                \<lparr>HealthValues := HealthValues g2 @ [(QuotaViolation, ''-1'')]\<rparr>)
           else ((Some (errors_New ''Access denied''), 403), g2)
         else
           ((None, 200),
            (if MonitorUserKeys g2 then g2\<lparr>MonitorChecks := MonitorChecks g2 @ [(s, key)]\<rparr>
             else g2)))"

text \<open>
  \<open>RateLimitAndQuotaCheck.ProcessRequest\<close>. The two reads of the context are type
  assertions without the comma-ok form: they panic when the value is missing.
\<close>

definition RateLimit_ProcessRequest ::
  "Lib \<Rightarrow> APISpec \<Rightarrow> Gateway \<Rightarrow> panic + ((error option \<times> int) \<times> Gateway)" where
  "RateLimit_ProcessRequest lib t g =
     (case ctx_SessionData g of
        None \<Rightarrow> Inl (TypeAssertionPanic ''interface conversion: interface is nil, not SessionState'')
      | Some thisSessionState \<Rightarrow>
          (case ctx_AuthHeaderValue g of
             None \<Rightarrow> Inl (TypeAssertionPanic ''interface conversion: interface is nil, not string'')
           | Some authHeaderValue \<Rightarrow>
               if SessionState.PolicyPerAPI thisSessionState \<noteq> None then
                 (let apiSessionKey = authHeaderValue @ APISessionKeySuffix @ APISpec.APIID t;
                      (perAPISession, found) = GetSessionDetail (SessionManager g) apiSessionKey
                  in if found then Inr (applyRateLimiting lib apiSessionKey perAPISession g)
                     else Inr (applyRateLimiting lib authHeaderValue thisSessionState g))
               else Inr (applyRateLimiting lib authHeaderValue thisSessionState g)))"

section \<open>Policy loader\<close>

text \<open>
  \<open>LoadPoliciesFromFile(filePath)\<close>. The Go function returns the map only; the second
  component of the model is what it wrote to the error log.
\<close>

definition LoadPoliciesFromFile :: "Lib \<Rightarrow> string \<Rightarrow> Policy gomap \<times> string list" where
  "LoadPoliciesFromFile lib filePath =
     (let policies = Some Map.empty;
          (policyConfig, err) = ioutil_ReadFile lib filePath
      in if err \<noteq> None then (policies, [''Couldn't load policy file: ''])
         else
           (let (policies', mErr) = json_Unmarshal_Policies lib policyConfig policies
            in (policies', if mErr \<noteq> None then [''Couldn't unmarshal policies: ''] else [])))"

section \<open>Example values\<close>

text \<open>
  Concrete values, after the scenarios of the spec, at which the theorems below are
  instantiated: an API \<open>A1\<close> of organisation \<open>O1\<close> with a JWKS source, a policy \<open>P1\<close>, a
  gateway with empty caches and stores, and a token with the claims \<open>email\<close> and \<open>pol\<close>.
\<close>

definition ex_spec :: APISpec where
  "ex_spec =
     \<lparr>APIID = ''A1'', OrgID = ''O1'', SessionLifetime = 3600, JWTSource = ''https://idp/jwks'',
      JWTIdentityBaseField = ''email'', JWTPolicyFieldName = ''pol'', JWTSigningMethod = ''rsa'',
      AuthHeaderName = ''Authorization'', UseParam = False, UseCookie = False\<rparr>"

definition ex_policy :: "string \<Rightarrow> Policy" where
  "ex_policy org =
     \<lparr>MID = '''', ID = ''P1'', Policy.OrgID = org, Policy.Rate = 5, Policy.Per = 60,
      Policy.QuotaMax = 100, Policy.QuotaRenewalRate = 3600, Policy.PolicyPerAPI = None,
      Policy.AccessRights = None, Policy.HMACEnabled = False, Active = True,
      Policy.IsInactive = False, Policy.Tags = [''gold''], KeyExpiresIn = 0\<rparr>"

definition ex_gateway :: Gateway where
  "ex_gateway =
     \<lparr>SessionCache = Map.empty, SessionManager = [], AuthManager = Map.empty,
      Policies = Map.empty, JWKCache = None, DisableCacheSessionState = False,
      UseAsyncSessionWrite = False, MonitorUserKeys = False, ctx_SessionData = None,
      ctx_AuthHeaderValue = None, goroutines = [], HealthValues = [], FiredEvents = [],
      MonitorChecks = []\<rparr>"

definition ex_token :: Token where
  "ex_token =
     \<lparr>Raw = ''tok'', Method = SigningMethodRSA,
      Header = [''alg'' \<mapsto> is_string ''RS256'', ''kid'' \<mapsto> is_string ''K1''],
      Claims = [''email'' \<mapsto> is_string ''a@x'', ''pol'' \<mapsto> is_string ''P1''],
      Valid = True\<rparr>"

text \<open>
  A limiter for the examples: it refuses with reason 2 when no quota remains, and
  otherwise takes one from the remaining quota.
\<close>

definition ex_ForwardMessage ::
  "SessionState \<Rightarrow> string \<Rightarrow> SessionStore \<Rightarrow> bool \<times> int \<times> SessionState \<times> SessionStore" where
  "ex_ForwardMessage s key store =
     (if QuotaRemaining s = 0 then (False, 2, s, store)
      else (True, 0, s\<lparr>QuotaRemaining := QuotaRemaining s - 1\<rparr>, store))"

text \<open>
  The world of the examples: the MD5 digest of the three bytes of \<open>a@x\<close> is the true one; the JWKS endpoint
  answers with a body that is not JSON; the token \<open>tok\<close> decodes to a token that has no
  \<open>kid\<close> header; the policy file does not exist.
\<close>

definition ex_lib :: Lib where
  "ex_lib =
     \<lparr>md5_Sum = (\<lambda>d. if d = [0x61, 0x40, 0x78]
                     then [0x48, 0x95, 0xb1, 0xd4, 0xed, 0x83, 0xc6, 0xda,
                           0x44, 0x8e, 0x89, 0xf7, 0x2e, 0x11, 0x03, 0xa0]
                     else replicate 16 0),
      stripBearer = (\<lambda>s. if HasPrefix s ''Bearer '' then drop 7 s else s),
      b64_DecodeString = (\<lambda>s. (bytes_of s, None)),
      http_Get = (\<lambda>url. Inr (''not json'', None)),
      json_Unmarshal_JWKs = (\<lambda>contents v. (v, Some (lib_error ''invalid character''))),
      jwt_decode = (\<lambda>raw. if raw = ''tok''
                       then (Some (ex_token\<lparr>Header := [''alg'' \<mapsto> is_string ''RS256'']\<rparr>), None)
                       else (None, Some (lib_error ''token contains an invalid number of segments''))),
      jwt_validate = (\<lambda>token key. None),
      ForwardMessage = ex_ForwardMessage,
      ioutil_ReadFile = (\<lambda>path. ('''', Some (lib_error ''no such file or directory''))),
      json_Unmarshal_Policies = (\<lambda>contents v. (v, Some (lib_error ''unexpected end of JSON input'')))\<rparr>"

definition ex_request :: Request where
  "ex_request =
     \<lparr>Headers = [''Authorization'' \<mapsto> ''Bearer tok''], FormValues = Map.empty,
      Cookies = Map.empty\<rparr>"

text \<open>
  A request context as the rate-limit middleware may find it: the bound session \<open>k1\<close> has a
  per-API policy map, with an entry for the API \<open>A2\<close> only and no quota left, and the store
  holds a session under \<open>k1.API-A1\<close>.
\<close>

definition ex_base_session :: SessionState where
  "ex_base_session =
     SessionState_zero\<lparr>SessionState.Rate := 1, SessionState.Per := 60, QuotaRemaining := 0,
       SessionState.PolicyPerAPI := Some [''A2'' \<mapsto> ''P_fast'']\<rparr>"

definition ex_api_session :: SessionState where
  "ex_api_session =
     SessionState_zero\<lparr>SessionState.Rate := 100, SessionState.Per := 60,
       SessionState.QuotaMax := 10, QuotaRemaining := 7\<rparr>"

definition ex_limited_gateway :: Gateway where
  "ex_limited_gateway =
     ex_gateway\<lparr>SessionManager := [(''k1.API-A1'', ex_api_session, 0), (''k1'', ex_base_session, 0)],
       ctx_SessionData := Some ex_base_session, ctx_AuthHeaderValue := Some ''k1''\<rparr>"

text \<open>A limiter that refuses every request with the given reason, and counts it.\<close>

definition ex_lib_refusing :: "int \<Rightarrow> Lib" where
  "ex_lib_refusing reason =
     ex_lib\<lparr>ForwardMessage :=
              (\<lambda>s key store. (False, reason, s\<lparr>QuotaRemaining := QuotaRemaining s - 1\<rparr>, store))\<rparr>"

text \<open>
  Two more worlds for the policy loader: one where the policy file holds the empty JSON
  object, which decodes without error and leaves the map as it is, and one where the file
  holds a lone brace, at which the decoder fails.
\<close>

definition ex_lib_empty_file :: Lib where
  "ex_lib_empty_file =
     ex_lib\<lparr>ioutil_ReadFile := (\<lambda>path. (''{}'', None)),
       json_Unmarshal_Policies := (\<lambda>contents v. (v, None))\<rparr>"

definition ex_lib_corrupt_file :: Lib where
  "ex_lib_corrupt_file = ex_lib\<lparr>ioutil_ReadFile := (\<lambda>path. (''{'', None))\<rparr>"

text \<open>
  A base session whose per-API policy map names the policy \<open>P1\<close> for the API \<open>A1\<close>, and a
  gateway whose store holds it under \<open>k1\<close>.
\<close>

definition ex_per_api_base :: SessionState where
  "ex_per_api_base =
     SessionState_zero\<lparr>SessionState.Rate := 1, SessionState.Per := 60,
       SessionState.PolicyPerAPI := Some [''A1'' \<mapsto> ''P1'']\<rparr>"

definition ex_per_api_gateway :: Gateway where
  "ex_per_api_gateway = ex_gateway\<lparr>SessionManager := [(''k1'', ex_per_api_base, 0)]\<rparr>"

text \<open>
  A gateway whose store holds under \<open>k1\<close> a session that asks for the policy \<open>P1\<close>, a policy
  of the API's organisation.
\<close>

definition ex_policy_gateway :: Gateway where
  "ex_policy_gateway =
     ex_gateway\<lparr>SessionManager := [(''k1'', SessionState_zero\<lparr>ApplyPolicyID := ''P1''\<rparr>, 0)],
       Policies := [''P1'' \<mapsto> ex_policy ''O1'']\<rparr>"

text \<open>
  Gateways whose layers disagree about the key \<open>k1\<close>, as they do after the rate limiter
  has written new counters to the store while the local cache still holds the session it
  was given before: the upper layer holds the session with nine requests of quota left,
  the lower one the session with eight.
\<close>

definition ex_quota :: "int64 \<Rightarrow> SessionState" where
  "ex_quota n = SessionState_zero\<lparr>SessionState.QuotaMax := 10, QuotaRemaining := n\<rparr>"

definition ex_stale_cache_gateway :: Gateway where
  "ex_stale_cache_gateway =
     ex_gateway\<lparr>SessionCache := [''k1'' \<mapsto> ex_quota 9],
       SessionManager := [(''k1'', ex_quota 8, 0)]\<rparr>"

definition ex_stale_cache_auth_gateway :: Gateway where
  "ex_stale_cache_auth_gateway =
     ex_gateway\<lparr>SessionCache := [''k1'' \<mapsto> ex_quota 9],
       AuthManager := [''k1'' \<mapsto> ex_quota 8]\<rparr>"

definition ex_stale_store_gateway :: Gateway where
  "ex_stale_store_gateway =
     ex_gateway\<lparr>SessionManager := [(''k1'', ex_quota 9, 60)],
       AuthManager := [''k1'' \<mapsto> ex_quota 8]\<rparr>"

text \<open>
  A world where the policy file is read, and the decoder stores the policy \<open>P1\<close> and then
  fails at a second policy, whose rate is a string where a number is expected.
\<close>

definition ex_lib_partly_decoded :: Lib where
  "ex_lib_partly_decoded =
     ex_lib\<lparr>ioutil_ReadFile := (\<lambda>path. (''{P1: {rate: 5}, P2: {rate: x}}'', None)),
       json_Unmarshal_Policies :=
         (\<lambda>contents v.
            (Some [''P1'' \<mapsto> ex_policy ''O1''],
             Some (lib_error ''json: cannot unmarshal string into Go value of type float64'')))\<rparr>"

section \<open>Notions for the statements and the proofs\<close>

text \<open>The events whose firing a list of goroutines stands for.\<close>

fun events_of :: "goroutine list \<Rightarrow> (event \<times> string) list" where
  "events_of [] = []"
| "events_of (Go_FireEvent ev key # tasks) = (ev, key) # events_of tasks"
| "events_of (task # tasks) = events_of tasks"

text \<open>
  These four are not functions of the gateway; they describe a state of it. \<open>cached g key\<close>
  is what step 1 of \<open>checkSessionAndValidateKey\<close> finds for the key, \<open>first_source g key\<close>
  the session that the first of the three layers holding the key holds, \<open>with_policy\<close> the
  session that \<open>ApplyPolicyIfExists\<close> (without stripping) turns a session into, and
  \<open>resolves_to key t r g\<close> says that the first layer holding the key holds a session that
  the overlay turns into \<open>r\<close>.
\<close>

definition cached :: "Gateway \<Rightarrow> string \<Rightarrow> SessionState option" where
  "cached g key = (if \<not> DisableCacheSessionState g then SessionCache g key else None)"

definition first_source :: "Gateway \<Rightarrow> string \<Rightarrow> SessionState option" where
  "first_source g key =
     (case cached g key of
        Some c \<Rightarrow> Some c
      | None \<Rightarrow>
          (case map_of (SessionManager g) key of
             Some (s, ttl) \<Rightarrow> Some s
           | None \<Rightarrow> AuthManager g key))"

definition with_policy :: "(string \<rightharpoonup> Policy) \<Rightarrow> APISpec \<Rightarrow> SessionState \<Rightarrow> SessionState" where
  "with_policy P t s =
     (if ApplyPolicyID s \<noteq> '''' then
        (case P (ApplyPolicyID s) of
           Some policy \<Rightarrow> if Policy.OrgID policy \<noteq> APISpec.OrgID t then s else overlay policy s
         | None \<Rightarrow> s)
      else s)"

definition resolves_to :: "string \<Rightarrow> APISpec \<Rightarrow> SessionState \<Rightarrow> Gateway \<Rightarrow> bool" where
  "resolves_to key t r g =
     (case first_source g key of
        Some y \<Rightarrow> with_policy (Policies g) t y = r
      | None \<Rightarrow> False)"

text \<open>
  A cache write that a resolution of \<open>key\<close> with result \<open>r\<close> may leave behind: one for
  another key, or one of a session that the overlay turns into \<open>r\<close>.
\<close>

fun compatible ::
  "string \<Rightarrow> APISpec \<Rightarrow> (string \<rightharpoonup> Policy) \<Rightarrow> SessionState \<Rightarrow> goroutine \<Rightarrow> bool" where
  "compatible key t P r (SessionCache_Set k x) = (k \<noteq> key \<or> with_policy P t x = r)"
| "compatible key t P r task = False"

section \<open>Facts about the rate limiter and the examples\<close>

lemma events_of_append: "events_of (xs @ ys) = events_of xs @ events_of ys"
  by (induction xs rule: events_of.induct) simp_all

lemma ex_refusing_ForwardMessage:
  "ForwardMessage (ex_lib_refusing reason) ex_api_session ''k1'' (SessionManager ex_limited_gateway)
     = (False, reason, ex_api_session\<lparr>QuotaRemaining := 6\<rparr>, SessionManager ex_limited_gateway)"
  by (simp add: ex_lib_refusing_def ex_api_session_def SessionState_zero_def)

lemma ex_limited_gateway_quiet:
  "goroutines ex_limited_gateway = []" "HealthValues ex_limited_gateway = []"
  "\<not> UseAsyncSessionWrite ex_limited_gateway"
  by (simp_all add: ex_limited_gateway_def ex_gateway_def)

section \<open>Facts about the policy overlay and the resolver\<close>

lemma ApplyPolicyIfExists_cross_org:
  "Policies g (ApplyPolicyID s) = Some policy \<Longrightarrow> Policy.OrgID policy \<noteq> APISpec.OrgID t
   \<Longrightarrow> ApplyPolicyIfExists t key s strip g = (s, g)"
  by (simp add: ApplyPolicyIfExists_def)

lemma ApplyPolicyIfExists_changed:
  "ApplyPolicyIfExists t key s strip g \<noteq> (s, g)
   \<Longrightarrow> \<exists>policy. Policies g (ApplyPolicyID s) = Some policy
          \<and> Policy.OrgID policy = APISpec.OrgID t"
  by (auto simp: ApplyPolicyIfExists_def split: if_splits option.splits)

lemma checkSessionAndValidateKey_miss:
  "\<not> fst (snd (checkSessionAndValidateKey key t g))
   \<Longrightarrow> checkSessionAndValidateKey key t g = (SessionState_zero, False, g)"
  by (auto simp: checkSessionAndValidateKey_def GetSessionDetail_def IsKeyAuthorised_def Let_def
        split: if_splits option.splits prod.splits)

lemma CheckSessionAndIdentityForValidKey_base:
  "fst (CheckSessionAndIdentityForValidKey t key g) = fst (checkSessionAndValidateKey key t g)
   \<and> fst (snd (CheckSessionAndIdentityForValidKey t key g))
       = fst (snd (checkSessionAndValidateKey key t g))"
  by (auto simp: CheckSessionAndIdentityForValidKey_def Let_def split: prod.splits)

lemma CheckSessionAndIdentityForValidKey_miss:
  "\<not> fst (snd (CheckSessionAndIdentityForValidKey t key g))
   \<Longrightarrow> CheckSessionAndIdentityForValidKey t key g = (SessionState_zero, False, g)"
  using checkSessionAndValidateKey_miss[of key t g]
    CheckSessionAndIdentityForValidKey_base[of t key g]
  by (auto simp: CheckSessionAndIdentityForValidKey_def Let_def split: prod.splits)

lemma ProcessRequest_central_cross_org:
  assumes "assert_string_ok (Claims token (JWTIdentityBaseField t)) = (b, True)
           \<or> (\<not> snd (assert_string_ok (Claims token (JWTIdentityBaseField t)))
              \<and> assert_string_ok (Claims token ''sub'') = (b, True))"
    and "\<not> fst (snd (CheckSessionAndIdentityForValidKey t
                (APISpec.OrgID t @ Sprintf_x (md5_Sum lib (bytes_of b))) g))"
    and "assert_string_ok (Claims token (JWTPolicyFieldName t)) = (pid, True)"
    and "Policies g pid = Some policy" and "Policy.OrgID policy \<noteq> APISpec.OrgID t"
  shows "ProcessRequest_central lib t token g =
           ((Some (errors_New ''Key not authorized: no matching policy''), 403), g)"
proof -
  from assms(2) have m: "CheckSessionAndIdentityForValidKey t
      (APISpec.OrgID t @ Sprintf_x (md5_Sum lib (bytes_of b))) g = (SessionState_zero, False, g)"
    by (simp add: CheckSessionAndIdentityForValidKey_miss)
  from assms(1) show ?thesis
  proof
    assume "assert_string_ok (Claims token (JWTIdentityBaseField t)) = (b, True)"
    then show ?thesis using m assms(3-5) by (simp add: ProcessRequest_central_def)
  next
    assume "\<not> snd (assert_string_ok (Claims token (JWTIdentityBaseField t)))
              \<and> assert_string_ok (Claims token ''sub'') = (b, True)"
    then show ?thesis using m assms(3-5)
      by (cases "assert_string_ok (Claims token (JWTIdentityBaseField t))")
         (simp add: ProcessRequest_central_def)
  qed
qed

lemma ApplyPolicyIfExists_Policies:
  "Policies (snd (ApplyPolicyIfExists t key s strip g)) = Policies g"
  by (simp add: ApplyPolicyIfExists_def Let_def split: option.splits)

lemma checkSessionAndValidateKey_Policies:
  "Policies (snd (snd (checkSessionAndValidateKey key t g))) = Policies g"
proof -
  have a: "Policies g2 = Policies g1" if "ApplyPolicyIfExists t key s strip g1 = (s', g2)"
    for s strip g1 s' g2
    using ApplyPolicyIfExists_Policies[of t key s strip g1] that by simp
  show ?thesis
    by (auto simp: checkSessionAndValidateKey_def Let_def spawn_def
          split: option.splits prod.splits if_splits dest!: a)
qed

lemma ApplyPolicyIfExists_with_policy:
  "fst (ApplyPolicyIfExists t key s False g) = with_policy (Policies g) t s"
  by (simp add: ApplyPolicyIfExists_def with_policy_def Let_def split: option.splits)

lemma overlay_ApplyPolicyID: "ApplyPolicyID (overlay policy s) = ApplyPolicyID s"
  by (simp add: overlay_def)

lemma overlay_idem: "overlay policy (overlay policy s) = overlay policy s"
  by (simp add: overlay_def)

lemma with_policy_idem: "with_policy P t (with_policy P t s) = with_policy P t s"
  by (simp add: with_policy_def overlay_ApplyPolicyID overlay_idem split: option.splits)

lemma ApplyPolicyIfExists_effect:
  assumes "ApplyPolicyIfExists t k s strip g = (s', g')"
  shows "g' = g \<or> g' = g\<lparr>SessionManager := (k, s', SessionLifetime t) # SessionManager g\<rparr>"
  using assms
  by (auto simp: ApplyPolicyIfExists_def Let_def UpdateSession_def split: option.splits if_splits)

lemma ApplyPolicyIfExists_with_policy_eq:
  "ApplyPolicyIfExists t key s False g = (s', g') \<Longrightarrow> s' = with_policy (Policies g) t s"
  using ApplyPolicyIfExists_with_policy[of t key s g] by simp

lemma checkSessionAndValidateKey_result:
  "(fst (checkSessionAndValidateKey key t g), fst (snd (checkSessionAndValidateKey key t g)))
     = (case first_source g key of
          Some x \<Rightarrow> (with_policy (Policies g) t x, True)
        | None \<Rightarrow> (SessionState_zero, False))"
  by (auto simp: checkSessionAndValidateKey_def first_source_def cached_def Let_def
        GetSessionDetail_def IsKeyAuthorised_def spawn_def
        split: option.splits prod.splits if_splits
        dest!: ApplyPolicyIfExists_with_policy_eq)

lemma resolves_to_result:
  "resolves_to key t r g \<Longrightarrow>
     fst (checkSessionAndValidateKey key t g) = r \<and> fst (snd (checkSessionAndValidateKey key t g))"
  using checkSessionAndValidateKey_result[of key t g]
  by (auto simp: resolves_to_def split: option.splits)

lemma found_resolves_to:
  "fst (snd (checkSessionAndValidateKey key t g)) \<Longrightarrow>
     resolves_to key t (fst (checkSessionAndValidateKey key t g)) g"
  using checkSessionAndValidateKey_result[of key t g]
  by (auto simp: resolves_to_def split: option.splits)

lemma first_source_goroutines: "first_source (g\<lparr>goroutines := gs\<rparr>) key = first_source g key"
  by (simp add: first_source_def cached_def split: option.splits)

lemma resolves_to_goroutines:
  "resolves_to key t r (g\<lparr>goroutines := gs\<rparr>) = resolves_to key t r g"
  by (simp add: resolves_to_def first_source_goroutines split: option.splits)

lemma resolves_to_spawn: "resolves_to key t r (spawn task g) = resolves_to key t r g"
  by (simp add: spawn_def resolves_to_goroutines)

lemma resolves_to_store:
  assumes "resolves_to key t r g" and "k \<noteq> key \<or> with_policy (Policies g) t s = r"
  shows "resolves_to key t r (g\<lparr>SessionManager := (k, s, ttl) # SessionManager g\<rparr>)"
  using assms
  by (auto simp: resolves_to_def first_source_def cached_def split: option.splits if_splits)

lemma resolves_to_cache:
  assumes "resolves_to key t r g" and "k \<noteq> key \<or> with_policy (Policies g) t x = r"
  shows "resolves_to key t r (g\<lparr>SessionCache := (SessionCache g)(k \<mapsto> x)\<rparr>)"
  using assms
  by (auto simp: resolves_to_def first_source_def cached_def split: option.splits if_splits)

lemma ApplyPolicyIfExists_preserves:
  assumes "resolves_to key t r g"
    and "k \<noteq> key \<or> with_policy (Policies g) t (fst (ApplyPolicyIfExists t k s strip g)) = r"
  shows "resolves_to key t r (snd (ApplyPolicyIfExists t k s strip g))"
    and "goroutines (snd (ApplyPolicyIfExists t k s strip g)) = goroutines g"
proof -
  obtain s' g' where a: "ApplyPolicyIfExists t k s strip g = (s', g')"
    by (cases "ApplyPolicyIfExists t k s strip g")
  from ApplyPolicyIfExists_effect[OF a]
  have "g' = g \<or> g' = g\<lparr>SessionManager := (k, s', SessionLifetime t) # SessionManager g\<rparr>" .
  then show "resolves_to key t r (snd (ApplyPolicyIfExists t k s strip g))"
    using a assms resolves_to_store[of key t r g k s' "SessionLifetime t"] by auto
  from ApplyPolicyIfExists_effect[OF a]
  show "goroutines (snd (ApplyPolicyIfExists t k s strip g)) = goroutines g"
    using a by auto
qed

lemma checkSessionAndValidateKey_cache_hit:
  assumes "cached g k = Some c"
  shows "checkSessionAndValidateKey k t g
           = (fst (ApplyPolicyIfExists t k c False g), True, snd (ApplyPolicyIfExists t k c False g))"
  using assms by (simp add: checkSessionAndValidateKey_def cached_def split: prod.splits)

lemma checkSessionAndValidateKey_store_hit:
  assumes "cached g k = None" and "map_of (SessionManager g) k = Some (s, ttl)"
  shows "checkSessionAndValidateKey k t g
           = (fst (ApplyPolicyIfExists t k s False (spawn (SessionCache_Set k s) g)), True,
              snd (ApplyPolicyIfExists t k s False (spawn (SessionCache_Set k s) g)))"
  using assms
  by (simp add: checkSessionAndValidateKey_def cached_def GetSessionDetail_def Let_def
        split: prod.splits)

lemma checkSessionAndValidateKey_auth_hit:
  assumes "cached g k = None" and "map_of (SessionManager g) k = None"
    and "AuthManager g k = Some a"
  shows "checkSessionAndValidateKey k t g
           = (fst (ApplyPolicyIfExists t k a False (spawn (SessionCache_Set k a) g)), True,
              (snd (ApplyPolicyIfExists t k a False (spawn (SessionCache_Set k a) g)))
                \<lparr>SessionManager :=
                   (k, fst (ApplyPolicyIfExists t k a False (spawn (SessionCache_Set k a) g)),
                    SessionLifetime t)
                   # SessionManager
                       (snd (ApplyPolicyIfExists t k a False (spawn (SessionCache_Set k a) g)))\<rparr>)"
  using assms
  by (simp add: checkSessionAndValidateKey_def cached_def GetSessionDetail_def
        IsKeyAuthorised_def UpdateSession_def Let_def split: prod.splits)

lemma checkSessionAndValidateKey_no_source:
  assumes "first_source g k = None"
  shows "checkSessionAndValidateKey k t g = (SessionState_zero, False, g)"
  using assms
  by (auto simp: checkSessionAndValidateKey_def first_source_def cached_def GetSessionDetail_def
        IsKeyAuthorised_def Let_def split: option.splits if_splits)

lemma checkSessionAndValidateKey_preserves:
  assumes r: "resolves_to key t r g"
  shows "resolves_to key t r (snd (snd (checkSessionAndValidateKey k t g)))
       \<and> (\<exists>sp. goroutines (snd (snd (checkSessionAndValidateKey k t g))) = goroutines g @ sp
                \<and> (\<forall>task \<in> set sp. compatible key t (Policies g) r task))"
proof (cases "cached g k")
  case (Some c)
  have "k \<noteq> key \<or> with_policy (Policies g) t (fst (ApplyPolicyIfExists t k c False g)) = r"
    using r Some
    by (auto simp: resolves_to_def first_source_def ApplyPolicyIfExists_with_policy
          with_policy_idem)
  from ApplyPolicyIfExists_preserves[OF r this] show ?thesis
    by (simp add: checkSessionAndValidateKey_cache_hit[OF Some])
next
  case None
  show ?thesis
  proof (cases "map_of (SessionManager g) k")
    case (Some e)
    obtain s ttl where e: "e = (s, ttl)" by (cases e)
    let ?g1 = "spawn (SessionCache_Set k s) g"
    have c: "k \<noteq> key \<or> with_policy (Policies g) t s = r"
      using r None Some e by (auto simp: resolves_to_def first_source_def)
    have r1: "resolves_to key t r ?g1" using r by (simp add: resolves_to_spawn)
    have "k \<noteq> key \<or> with_policy (Policies ?g1) t (fst (ApplyPolicyIfExists t k s False ?g1)) = r"
      using c by (auto simp: ApplyPolicyIfExists_with_policy with_policy_idem spawn_def)
    from ApplyPolicyIfExists_preserves[OF r1 this] c show ?thesis
      using checkSessionAndValidateKey_store_hit[OF None Some[unfolded e], of t]
      by (simp add: spawn_def)
  next
    case none: None
    show ?thesis
    proof (cases "AuthManager g k")
      case (Some a)
      let ?g1 = "spawn (SessionCache_Set k a) g"
      let ?A = "ApplyPolicyIfExists t k a False ?g1"
      have c: "k \<noteq> key \<or> with_policy (Policies g) t a = r"
        using r None none Some by (auto simp: resolves_to_def first_source_def)
      have r1: "resolves_to key t r ?g1" using r by (simp add: resolves_to_spawn)
      have c1: "k \<noteq> key \<or> with_policy (Policies ?g1) t (fst ?A) = r"
        using c by (auto simp: ApplyPolicyIfExists_with_policy with_policy_idem spawn_def)
      note p = ApplyPolicyIfExists_preserves[OF r1 c1]
      have pol: "Policies (snd ?A) = Policies g"
        by (simp add: ApplyPolicyIfExists_Policies spawn_def)
      have "k \<noteq> key \<or> with_policy (Policies (snd ?A)) t (fst ?A) = r"
        using c1 pol by (simp add: spawn_def)
      from resolves_to_store[OF p(1) this, of "SessionLifetime t"] p(2) c show ?thesis
        using checkSessionAndValidateKey_auth_hit[OF None none Some, of t]
        by (simp add: spawn_def)
    next
      case noauth: None
      have "first_source g k = None"
        using None none noauth by (simp add: first_source_def)
      from checkSessionAndValidateKey_no_source[OF this] r show ?thesis by simp
    qed
  qed
qed

lemma APISessionKey_neq: "key @ APISessionKeySuffix @ apiID \<noteq> key"
  by (simp add: APISessionKeySuffix_def)

lemma CheckSessionAndIdentityForValidKey_preserves:
  assumes r: "resolves_to key t r g"
  shows "resolves_to key t r (snd (snd (CheckSessionAndIdentityForValidKey t key g)))
       \<and> Policies (snd (snd (CheckSessionAndIdentityForValidKey t key g))) = Policies g
       \<and> (\<exists>sp. goroutines (snd (snd (CheckSessionAndIdentityForValidKey t key g)))
                  = goroutines g @ sp
                \<and> (\<forall>task \<in> set sp. compatible key t (Policies g) r task))"
proof -
  let ?apiKey = "key @ APISessionKeySuffix @ APISpec.APIID t"
  obtain b f g1 where c1: "checkSessionAndValidateKey key t g = (b, f, g1)"
    by (cases "checkSessionAndValidateKey key t g") auto
  obtain pa fa g2 where c2: "checkSessionAndValidateKey ?apiKey t g1 = (pa, fa, g2)"
    by (cases "checkSessionAndValidateKey ?apiKey t g1") auto
  let ?A = "ApplyPolicyIfExists t ?apiKey
              (pa\<lparr>ApplyPolicyID := map_index (SessionState.PolicyPerAPI b) (APISpec.APIID t)\<rparr>)
              True g2"
  from checkSessionAndValidateKey_preserves[OF r, of key] c1
  obtain sp1 where s1: "resolves_to key t r g1" "goroutines g1 = goroutines g @ sp1"
    "\<forall>task \<in> set sp1. compatible key t (Policies g) r task"
    by auto
  have p1: "Policies g1 = Policies g"
    using checkSessionAndValidateKey_Policies[of key t g] c1 by simp
  from checkSessionAndValidateKey_preserves[OF s1(1), of ?apiKey] c2 p1
  obtain sp2 where s2: "resolves_to key t r g2" "goroutines g2 = goroutines g1 @ sp2"
    "\<forall>task \<in> set sp2. compatible key t (Policies g) r task"
    by auto
  have p2: "Policies g2 = Policies g"
    using checkSessionAndValidateKey_Policies[of ?apiKey t g1] c2 p1 by simp
  have s3: "resolves_to key t r (snd ?A)" "goroutines (snd ?A) = goroutines g2"
    using ApplyPolicyIfExists_preserves[OF s2(1), of ?apiKey] APISessionKey_neq by auto
  have p3: "Policies (snd ?A) = Policies g"
    using p2 by (simp add: ApplyPolicyIfExists_Policies)
  have final: "snd (snd (CheckSessionAndIdentityForValidKey t key g)) = g1
             \<or> snd (snd (CheckSessionAndIdentityForValidKey t key g)) = g2
             \<or> snd (snd (CheckSessionAndIdentityForValidKey t key g)) = snd ?A"
    using c1 c2
    by (auto simp: CheckSessionAndIdentityForValidKey_def Let_def split: prod.splits)
  from final show ?thesis
  proof (elim disjE)
    assume "snd (snd (CheckSessionAndIdentityForValidKey t key g)) = g1"
    then show ?thesis using s1 p1 by auto
  next
    assume "snd (snd (CheckSessionAndIdentityForValidKey t key g)) = g2"
    then show ?thesis using s1 s2 p2 by auto
  next
    assume "snd (snd (CheckSessionAndIdentityForValidKey t key g)) = snd ?A"
    then show ?thesis using s1 s2 s3 p3 by auto
  qed
qed

lemma run_goroutines_preserves:
  assumes "resolves_to key t r g"
    and "\<forall>task \<in> set tasks. compatible key t (Policies g) r task"
  shows "resolves_to key t r (run_goroutines tasks g)"
  using assms
proof (induction tasks arbitrary: g)
  case Nil
  then show ?case by simp
next
  case (Cons task tasks)
  from Cons.prems(2) obtain k x where task: "task = SessionCache_Set k x"
    and c: "k \<noteq> key \<or> with_policy (Policies g) t x = r"
    by (cases task) auto
  have "resolves_to key t r (run_goroutine task g)"
    using resolves_to_cache[OF Cons.prems(1) c] task by simp
  moreover have "Policies (run_goroutine task g) = Policies g"
    using task by simp
  ultimately show ?case using Cons.IH[of "run_goroutine task g"] Cons.prems(2) by simp
qed

section \<open>Facts about the JWT middleware\<close>

text \<open>
  \<open>ProcessRequest\<close> answers 200 for an API with a central JWT source only through its
  central-authority branch, entered with a token that verified.
\<close>

lemma JWT_ProcessRequest_central_mode:
  assumes "JWTSource t \<noteq> ''''" and "JWT_ProcessRequest lib t r g = Inr ((err, 200), g')"
  shows "\<exists>token g1. Valid token \<and> ProcessRequest_central lib t token g1 = ((err, 200), g')"
  using assms
  by (auto simp: JWT_ProcessRequest_def Let_def ProcessRequest_failed_def
        split: if_splits sum.splits prod.splits option.splits)

section \<open>C1: a policy of another organisation is never applied\<close>

text \<open>
  C1. Whenever the policy that a lookup finds belongs to another organisation than the
  API: \<open>ApplyPolicyIfExists\<close> returns the session and the whole state, the session store
  included, exactly as they were; and the central-authority branch of \<open>ProcessRequest\<close>,
  when it reaches the lookup (an identity claim \<open>b\<close> is present and no session exists under
  the synthesized key), answers 403 with the no-matching-policy error and leaves the
  state, the session store included, as it was. Conversely, when \<open>ApplyPolicyIfExists\<close>
  changes the session or the state, the policy it found has the API's organisation.
\<close>

theorem C1_cross_org_policy_not_applied:
  "(Policies g (ApplyPolicyID s) = Some policy \<and> Policy.OrgID policy \<noteq> APISpec.OrgID t
      \<longrightarrow> ApplyPolicyIfExists t key s strip g = (s, g))
   \<and> (ApplyPolicyIfExists t key s strip g \<noteq> (s, g)
      \<longrightarrow> (\<exists>p. Policies g (ApplyPolicyID s) = Some p \<and> Policy.OrgID p = APISpec.OrgID t))
   \<and> ((assert_string_ok (Claims token (JWTIdentityBaseField t)) = (b, True)
         \<or> (\<not> snd (assert_string_ok (Claims token (JWTIdentityBaseField t)))
            \<and> assert_string_ok (Claims token ''sub'') = (b, True)))
       \<and> \<not> fst (snd (CheckSessionAndIdentityForValidKey t
                (APISpec.OrgID t @ Sprintf_x (md5_Sum lib (bytes_of b))) g))
       \<and> assert_string_ok (Claims token (JWTPolicyFieldName t)) = (pid, True)
       \<and> Policies g pid = Some policy \<and> Policy.OrgID policy \<noteq> APISpec.OrgID t
      \<longrightarrow> ProcessRequest_central lib t token g =
            ((Some (errors_New ''Key not authorized: no matching policy''), 403), g))"
  using ApplyPolicyIfExists_cross_org[of g s policy t key strip]
    ApplyPolicyIfExists_changed[of t key s strip g]
    ProcessRequest_central_cross_org[of token t b lib g pid policy]
  by blast

lemma ex_central_miss:
  "\<not> fst (snd (CheckSessionAndIdentityForValidKey ex_spec
       (APISpec.OrgID ex_spec @ Sprintf_x (md5_Sum ex_lib (bytes_of ''a@x'')))
       (ex_gateway\<lparr>Policies := [''P1'' \<mapsto> ex_policy ''O2'']\<rparr>)))"
  by (simp add: CheckSessionAndIdentityForValidKey_def checkSessionAndValidateKey_def
        GetSessionDetail_def IsKeyAuthorised_def ex_gateway_def)

theorem C1_witness:
  "ApplyPolicyIfExists ex_spec ''k1'' (SessionState_zero\<lparr>ApplyPolicyID := ''P1''\<rparr>) False
       (ex_gateway\<lparr>Policies := [''P1'' \<mapsto> ex_policy ''O2'']\<rparr>)
     = (SessionState_zero\<lparr>ApplyPolicyID := ''P1''\<rparr>,
        ex_gateway\<lparr>Policies := [''P1'' \<mapsto> ex_policy ''O2'']\<rparr>)
   \<and> ApplyPolicyIfExists ex_spec ''k1'' (SessionState_zero\<lparr>ApplyPolicyID := ''P1''\<rparr>) False
       (ex_gateway\<lparr>Policies := [''P1'' \<mapsto> ex_policy ''O1'']\<rparr>)
     \<noteq> (SessionState_zero\<lparr>ApplyPolicyID := ''P1''\<rparr>,
        ex_gateway\<lparr>Policies := [''P1'' \<mapsto> ex_policy ''O1'']\<rparr>)
   \<and> ProcessRequest_central ex_lib ex_spec ex_token
       (ex_gateway\<lparr>Policies := [''P1'' \<mapsto> ex_policy ''O2'']\<rparr>)
     = ((Some (errors_New ''Key not authorized: no matching policy''), 403),
        ex_gateway\<lparr>Policies := [''P1'' \<mapsto> ex_policy ''O2'']\<rparr>)"
proof -
  have a: "Policies (ex_gateway\<lparr>Policies := [''P1'' \<mapsto> ex_policy ''O2'']\<rparr>)
             (ApplyPolicyID (SessionState_zero\<lparr>ApplyPolicyID := ''P1''\<rparr>)) = Some (ex_policy ''O2'')"
    by simp
  have b: "Policy.OrgID (ex_policy ''O2'') \<noteq> APISpec.OrgID ex_spec"
    by (simp add: ex_policy_def ex_spec_def)
  have c: "assert_string_ok (Claims ex_token (JWTIdentityBaseField ex_spec)) = (''a@x'', True)"
    by (simp add: assert_string_ok_def ex_token_def ex_spec_def)
  have d: "assert_string_ok (Claims ex_token (JWTPolicyFieldName ex_spec)) = (''P1'', True)"
    by (simp add: assert_string_ok_def ex_token_def ex_spec_def)
  have e: "ApplyPolicyIfExists ex_spec ''k1'' (SessionState_zero\<lparr>ApplyPolicyID := ''P1''\<rparr>) False
       (ex_gateway\<lparr>Policies := [''P1'' \<mapsto> ex_policy ''O1'']\<rparr>)
     \<noteq> (SessionState_zero\<lparr>ApplyPolicyID := ''P1''\<rparr>,
        ex_gateway\<lparr>Policies := [''P1'' \<mapsto> ex_policy ''O1'']\<rparr>)"
    by (simp add: ApplyPolicyIfExists_def ex_policy_def ex_spec_def ex_gateway_def
          UpdateSession_def Let_def)
  show ?thesis
    using a b c d e ex_central_miss
      C1_cross_org_policy_not_applied[of "ex_gateway\<lparr>Policies := [''P1'' \<mapsto> ex_policy ''O2'']\<rparr>"
        "SessionState_zero\<lparr>ApplyPolicyID := ''P1''\<rparr>" "ex_policy ''O2''" ex_spec "''k1''" False
        ex_token "''a@x''" ex_lib "''P1''"]
    by simp
qed

section \<open>C2: the error of a failed JWKS decoding\<close>

lemma getSecretFromURL_decode_error:
  assumes "(case JWKCache g of None \<Rightarrow> None | Some c \<Rightarrow> c (APISpec.APIID t)) = None"
    and "http_Get lib url = Inr (contents, None)"
    and "json_Unmarshal_JWKs lib contents \<lparr>Keys = []\<rparr> = (v, Some decErr)"
  shows "fst (getSecretFromURL lib t url kid keyType g) = (None, None)"
  using assms by (auto simp: getSecretFromURL_def Let_def split: option.splits)

text \<open>
  C2. The specification asks that \<open>getSecretFromURL\<close> return an error carrying the decode cause
  when the GET and the read of the body succeed and the body does not decode as a JWKS.
  The code does not: at the endpoint of the examples, whose body \<open>not json\<close> makes
  \<open>json.Unmarshal\<close> fail with an error, \<open>getSecretFromURL\<close> returns the pair \<open>(nil, nil)\<close>: no
  key and no error. It returns the variable \<open>err\<close> of the read, which is nil there, where
  it holds the decode error in \<open>decErr\<close>.
\<close>

theorem C2_decode_error_returned_as_nil:
  "http_Get ex_lib ''https://idp/jwks'' = Inr (''not json'', None)
   \<and> snd (json_Unmarshal_JWKs ex_lib ''not json'' \<lparr>Keys = []\<rparr>)
       = Some (lib_error ''invalid character'')
   \<and> fst (getSecretFromURL ex_lib ex_spec ''https://idp/jwks'' ''K1'' ''rsa'' ex_gateway)
       = (None, None)"
  by (simp add: getSecretFromURL_def ex_lib_def ex_gateway_def ex_spec_def)

section \<open>C3: the key of a synthesized session\<close>







section \<open>C4: the per-API session\<close>

text \<open>
  C4, as the specification states it, fails at three inputs. At each the store holds a base session
  under \<open>k1\<close> whose \<open>PolicyPerAPI\<close> names the policy \<open>P1\<close> for the current API \<open>A1\<close>, and the base
  session is found. When no policy \<open>P1\<close> is registered, and when \<open>P1\<close> belongs to the
  organisation \<open>O2\<close>, the store holds no session under \<open>k1.API-A1\<close> after the call. When the
  store already holds a session with rate 100 under \<open>k1.API-A1\<close> and \<open>P1\<close> has rate 5, the
  session under that key still has rate 100 after the call.
\<close>

theorem C4_counterexample:
  "fst (snd (CheckSessionAndIdentityForValidKey ex_spec ''k1'' ex_per_api_gateway))
   \<and> map_index (SessionState.PolicyPerAPI
         (fst (CheckSessionAndIdentityForValidKey ex_spec ''k1'' ex_per_api_gateway)))
       (APISpec.APIID ex_spec) = ''P1''
   \<and> \<not> snd (GetSessionDetail (SessionManager (snd (snd
         (CheckSessionAndIdentityForValidKey ex_spec ''k1'' ex_per_api_gateway)))) ''k1.API-A1'')
   \<and> \<not> snd (GetSessionDetail (SessionManager (snd (snd
         (CheckSessionAndIdentityForValidKey ex_spec ''k1''
            (ex_per_api_gateway\<lparr>Policies := [''P1'' \<mapsto> ex_policy ''O2'']\<rparr>))))) ''k1.API-A1'')
   \<and> SessionState.Rate (fst (GetSessionDetail (SessionManager (snd (snd
         (CheckSessionAndIdentityForValidKey ex_spec ''k1''
            (ex_per_api_gateway\<lparr>Policies := [''P1'' \<mapsto> ex_policy ''O1''],
               SessionManager := [(''k1.API-A1'', ex_api_session, 0),
                                  (''k1'', ex_per_api_base, 0)]\<rparr>))))) ''k1.API-A1'')) = 100
   \<and> Policy.Rate (ex_policy ''O1'') = 5"
  by (simp add: CheckSessionAndIdentityForValidKey_def checkSessionAndValidateKey_def
        ApplyPolicyIfExists_def GetSessionDetail_def IsKeyAuthorised_def map_index_def
        APISessionKeySuffix_def spawn_def Let_def ex_per_api_gateway_def ex_per_api_base_def
        ex_api_session_def ex_gateway_def ex_spec_def ex_policy_def SessionState_zero_def)

text \<open>
  C4, amended. The call returns the base session, and whether it was found, as
  \<open>checkSessionAndValidateKey\<close> resolves them. When the base session is found and its
  \<open>PolicyPerAPI\<close> names a policy \<open>pid\<close> for the current API, no session is yet found under
  the key followed by \<open>.API-\<close> and the API's ID, and \<open>pid\<close> is a registered policy of the
  API's organisation, then after the call the store holds under that key the zero session
  overlaid with that policy: its ten overlaid fields are the policy's, and its
  \<open>ApplyPolicyID\<close> is empty.
\<close>

theorem C4_per_api_session_materialized:
  "fst (CheckSessionAndIdentityForValidKey t key g) = fst (checkSessionAndValidateKey key t g)
   \<and> fst (snd (CheckSessionAndIdentityForValidKey t key g))
       = fst (snd (checkSessionAndValidateKey key t g))
   \<and> (checkSessionAndValidateKey key t g = (baseSession, True, g1)
       \<and> map_index (SessionState.PolicyPerAPI baseSession) (APISpec.APIID t) = pid \<and> pid \<noteq> ''''
       \<and> \<not> fst (snd (checkSessionAndValidateKey (key @ APISessionKeySuffix @ APISpec.APIID t) t g1))
       \<and> Policies g pid = Some policy \<and> Policy.OrgID policy = APISpec.OrgID t
      \<longrightarrow> (\<exists>s. GetSessionDetail (SessionManager (snd (snd
                   (CheckSessionAndIdentityForValidKey t key g))))
                 (key @ APISessionKeySuffix @ APISpec.APIID t) = (s, True)
               \<and> s = overlay policy SessionState_zero
               \<and> Allowance s = Policy.Rate policy
               \<and> SessionState.Rate s = Policy.Rate policy
               \<and> SessionState.Per s = Policy.Per policy
               \<and> SessionState.QuotaMax s = Policy.QuotaMax policy
               \<and> SessionState.QuotaRenewalRate s = Policy.QuotaRenewalRate policy
               \<and> SessionState.PolicyPerAPI s = Policy.PolicyPerAPI policy
               \<and> SessionState.AccessRights s = Policy.AccessRights policy
               \<and> SessionState.HMACEnabled s = Policy.HMACEnabled policy
               \<and> SessionState.IsInactive s = Policy.IsInactive policy
               \<and> SessionState.Tags s = Policy.Tags policy
               \<and> ApplyPolicyID s = ''''))"
proof -
  let ?apiKey = "key @ APISessionKeySuffix @ APISpec.APIID t"
  have mat: "GetSessionDetail (SessionManager (snd (snd
                   (CheckSessionAndIdentityForValidKey t key g)))) ?apiKey
               = (overlay policy SessionState_zero, True)"
    if base: "checkSessionAndValidateKey key t g = (baseSession, True, g1)"
      and pid: "map_index (SessionState.PolicyPerAPI baseSession) (APISpec.APIID t) = pid"
        "pid \<noteq> ''''"
      and miss: "\<not> fst (snd (checkSessionAndValidateKey ?apiKey t g1))"
      and pol: "Policies g pid = Some policy" "Policy.OrgID policy = APISpec.OrgID t"
  proof -
    from pid have nonnil: "SessionState.PolicyPerAPI baseSession \<noteq> None"
      by (auto simp: map_index_def split: option.splits)
    from miss have m: "checkSessionAndValidateKey ?apiKey t g1 = (SessionState_zero, False, g1)"
      by (rule checkSessionAndValidateKey_miss)
    from base checkSessionAndValidateKey_Policies[of key t g] have "Policies g1 = Policies g"
      by simp
    with pol have p1: "Policies g1 pid = Some policy" by simp
    have stored: "(overlay policy (SessionState_zero\<lparr>ApplyPolicyID := pid\<rparr>))\<lparr>ApplyPolicyID := ''''\<rparr>
                    = overlay policy SessionState_zero"
      by (simp add: overlay_def SessionState_zero_def)
    have ap: "ApplyPolicyIfExists t ?apiKey (SessionState_zero\<lparr>ApplyPolicyID := pid\<rparr>) True g1
                = (overlay policy SessionState_zero,
                   g1\<lparr>SessionManager := UpdateSession ?apiKey (overlay policy SessionState_zero)
                                          (SessionLifetime t) (SessionManager g1)\<rparr>)"
      using p1 pol(2) pid(2) stored by (simp add: ApplyPolicyIfExists_def Let_def)
    show ?thesis
      using base pid nonnil m ap
      by (simp add: CheckSessionAndIdentityForValidKey_def Let_def GetSessionDetail_def
            UpdateSession_def)
  qed
  have fields: "overlay policy SessionState_zero = s \<Longrightarrow>
      Allowance s = Policy.Rate policy
      \<and> SessionState.Rate s = Policy.Rate policy
      \<and> SessionState.Per s = Policy.Per policy
      \<and> SessionState.QuotaMax s = Policy.QuotaMax policy
      \<and> SessionState.QuotaRenewalRate s = Policy.QuotaRenewalRate policy
      \<and> SessionState.PolicyPerAPI s = Policy.PolicyPerAPI policy
      \<and> SessionState.AccessRights s = Policy.AccessRights policy
      \<and> SessionState.HMACEnabled s = Policy.HMACEnabled policy
      \<and> SessionState.IsInactive s = Policy.IsInactive policy
      \<and> SessionState.Tags s = Policy.Tags policy
      \<and> ApplyPolicyID s = ''''" for s
    by (auto simp: overlay_def SessionState_zero_def)
  show ?thesis
    using CheckSessionAndIdentityForValidKey_base[of t key g] mat fields by auto
qed

theorem C4_witness:
  "fst (CheckSessionAndIdentityForValidKey ex_spec ''k1''
          (ex_per_api_gateway\<lparr>Policies := [''P1'' \<mapsto> ex_policy ''O1'']\<rparr>)) = ex_per_api_base
   \<and> GetSessionDetail (SessionManager (snd (snd (CheckSessionAndIdentityForValidKey ex_spec ''k1''
          (ex_per_api_gateway\<lparr>Policies := [''P1'' \<mapsto> ex_policy ''O1'']\<rparr>))))) ''k1.API-A1''
       = (overlay (ex_policy ''O1'') SessionState_zero, True)
   \<and> SessionState.Rate (overlay (ex_policy ''O1'') SessionState_zero) = 5"
proof -
  let ?g = "ex_per_api_gateway\<lparr>Policies := [''P1'' \<mapsto> ex_policy ''O1'']\<rparr>"
  let ?g1 = "spawn (SessionCache_Set ''k1'' ex_per_api_base) ?g"
  have base: "checkSessionAndValidateKey ''k1'' ex_spec ?g = (ex_per_api_base, True, ?g1)"
    by (simp add: checkSessionAndValidateKey_def ApplyPolicyIfExists_def GetSessionDetail_def
          Let_def ex_per_api_gateway_def ex_per_api_base_def ex_gateway_def SessionState_zero_def)
  have pid: "map_index (SessionState.PolicyPerAPI ex_per_api_base) (APISpec.APIID ex_spec) = ''P1''"
    by (simp add: map_index_def ex_per_api_base_def ex_spec_def)
  have miss: "\<not> fst (snd (checkSessionAndValidateKey
                (''k1'' @ APISessionKeySuffix @ APISpec.APIID ex_spec) ex_spec ?g1))"
    by (simp add: checkSessionAndValidateKey_def GetSessionDetail_def IsKeyAuthorised_def
          APISessionKeySuffix_def spawn_def ex_per_api_gateway_def ex_gateway_def ex_spec_def)
  have pol: "Policies ?g ''P1'' = Some (ex_policy ''O1'')"
    "Policy.OrgID (ex_policy ''O1'') = APISpec.OrgID ex_spec"
    by (simp_all add: ex_policy_def ex_spec_def)
  have key: "''k1'' @ APISessionKeySuffix @ APISpec.APIID ex_spec = ''k1.API-A1''"
    by (simp add: APISessionKeySuffix_def ex_spec_def)
  have rate: "SessionState.Rate (overlay (ex_policy ''O1'') SessionState_zero) = 5"
    by (simp add: overlay_def ex_policy_def)
  show ?thesis
    using C4_per_api_session_materialized[of ex_spec "''k1''" ?g ex_per_api_base ?g1 "''P1''"
        "ex_policy ''O1''"] base pid miss pol rate
    unfolding key by auto
qed

section \<open>C5: which session the limiter is applied to\<close>

lemma RateLimit_ProcessRequest_choice:
  assumes "ctx_SessionData g = Some s" and "ctx_AuthHeaderValue g = Some authKey"
  shows "RateLimit_ProcessRequest lib t g =
           (if SessionState.PolicyPerAPI s \<noteq> None
               \<and> snd (GetSessionDetail (SessionManager g)
                       (authKey @ APISessionKeySuffix @ APISpec.APIID t))
            then Inr (applyRateLimiting lib (authKey @ APISessionKeySuffix @ APISpec.APIID t)
                        (fst (GetSessionDetail (SessionManager g)
                               (authKey @ APISessionKeySuffix @ APISpec.APIID t))) g)
            else Inr (applyRateLimiting lib authKey s g))"
  using assms by (simp add: RateLimit_ProcessRequest_def Let_def split: prod.splits)

text \<open>
  C5. The specification asks that the limiter be applied to the per-API session exactly when the
  bound session's \<open>PolicyPerAPI\<close> map has an entry for the current API and a per-API session
  is in the store. The code tests only that the map is not nil. In the example the bound
  session \<open>k1\<close> has a map with an entry for \<open>A2\<close> and none for the current API \<open>A1\<close>, and the
  store holds a session under \<open>k1.API-A1\<close>: the limiter is applied to that session under
  that key, and the request passes with 200, where the limiter on the base session, which
  has no quota left, answers 403.
\<close>

theorem C5_limiter_on_per_api_session_without_entry:
  "map_index (SessionState.PolicyPerAPI ex_base_session) (APISpec.APIID ex_spec) = ''''
   \<and> ctx_SessionData ex_limited_gateway = Some ex_base_session
   \<and> RateLimit_ProcessRequest ex_lib ex_spec ex_limited_gateway
       = Inr (applyRateLimiting ex_lib ''k1.API-A1'' ex_api_session ex_limited_gateway)
   \<and> fst (applyRateLimiting ex_lib ''k1.API-A1'' ex_api_session ex_limited_gateway) = (None, 200)
   \<and> fst (applyRateLimiting ex_lib ''k1'' ex_base_session ex_limited_gateway)
       = (Some (errors_New ''Quota exceeded''), 403)"
  by (simp add: map_index_def RateLimit_ProcessRequest_def applyRateLimiting_def
        GetSessionDetail_def APISessionKeySuffix_def ex_base_session_def ex_api_session_def
        ex_limited_gateway_def ex_gateway_def ex_spec_def ex_lib_def ex_ForwardMessage_def
        SessionState_zero_def spawn_def Let_def)

section \<open>C6: a token without a key ID in central-authority mode\<close>

lemma getSecret_without_kid:
  assumes "HasPrefix (ToLower (JWTSource t)) ''http://''
           \<or> HasPrefix (ToLower (JWTSource t)) ''https://''"
    and "Header token ''kid'' = None"
  shows "getSecret lib t token g
           = Inl (TypeAssertionPanic ''interface conversion: interface is not string'')"
proof -
  from assms(1) have "JWTSource t \<noteq> ''''"
    by (auto simp: HasPrefix_def ToLower_def)
  with assms show ?thesis
    by (simp add: getSecret_def assert_string_def)
qed

text \<open>
  C6. The specification asks that a token without a \<open>kid\<close> header, at an API whose \<open>JWTSource\<close> is
  a URL, be refused with 403 after a presence check. The code has no such check:
  \<open>getSecret\<close> asserts \<open>token.Header["kid"].(string)\<close> on the nil interface and panics, and so
  does \<open>ProcessRequest\<close>, which returns no status at all. In the example the API's source is
  \<open>https://idp/jwks\<close> and the token of the request decodes to a header with \<open>alg\<close> only.
\<close>

theorem C6_missing_kid_panics:
  "Header (ex_token\<lparr>Header := [''alg'' \<mapsto> is_string ''RS256'']\<rparr>) ''kid'' = None
   \<and> getSecret ex_lib ex_spec (ex_token\<lparr>Header := [''alg'' \<mapsto> is_string ''RS256'']\<rparr>) ex_gateway
       = Inl (TypeAssertionPanic ''interface conversion: interface is not string'')
   \<and> JWT_ProcessRequest ex_lib ex_spec ex_request ex_gateway
       = Inl (TypeAssertionPanic ''interface conversion: interface is not string'')"
  by (simp add: getSecret_def JWT_ProcessRequest_def jwt_Parse_def keyFunc_def assert_string_def
        lookup_or_empty_def HasPrefix_def ToLower_def ToLower_char_def
        ex_lib_def ex_spec_def ex_token_def ex_request_def)

section \<open>C7: the outcome of a refused request\<close>

text \<open>
  C7. Let the limiter answer \<open>(fwd, reason)\<close>. Refused with reason 1: status 429 with the
  rate-limit error, one \<open>RateLimitExceeded\<close> event started for the key and one \<open>Throttle\<close>
  health sample. Refused with reason 2: status 403 with the quota error, one
  \<open>QuotaExceeded\<close> event and one \<open>QuotaViolation\<close> sample. Refused with any other reason:
  status 403 with the access-denied error, no event and no sample. Allowed: no error and
  status 200, no event and no sample.
\<close>

theorem C7_outcome_by_reason:
  assumes "ForwardMessage lib s key (SessionManager g) = (fwd, reason, s', store')"
    and "applyRateLimiting lib key s g = ((err, code), g')"
  shows "(\<not> fwd \<and> reason = 1 \<longrightarrow>
            err = Some (errors_New ''Rate limit exceeded'') \<and> code = 429
            \<and> events_of (goroutines g') = events_of (goroutines g) @ [(EVENT_RateLimitExceeded, key)]
            \<and> HealthValues g' = HealthValues g @ [(Throttle, ''-1'')])
       \<and> (\<not> fwd \<and> reason = 2 \<longrightarrow>
            err = Some (errors_New ''Quota exceeded'') \<and> code = 403
            \<and> events_of (goroutines g') = events_of (goroutines g) @ [(EVENT_QuotaExceeded, key)]
            \<and> HealthValues g' = HealthValues g @ [(QuotaViolation, ''-1'')])
       \<and> (\<not> fwd \<and> reason \<noteq> 1 \<and> reason \<noteq> 2 \<longrightarrow>
            err = Some (errors_New ''Access denied'') \<and> code = 403
            \<and> events_of (goroutines g') = events_of (goroutines g)
            \<and> HealthValues g' = HealthValues g)
       \<and> (fwd \<longrightarrow>
            err = None \<and> code = 200
            \<and> events_of (goroutines g') = events_of (goroutines g)
            \<and> HealthValues g' = HealthValues g)"
  using assms
  by (auto simp: applyRateLimiting_def Let_def spawn_def events_of_append split: if_splits)

theorem C7_witness:
  "fst (applyRateLimiting (ex_lib_refusing 1) ''k1'' ex_api_session ex_limited_gateway)
     = (Some (errors_New ''Rate limit exceeded''), 429)
   \<and> events_of (goroutines (snd (applyRateLimiting (ex_lib_refusing 1) ''k1'' ex_api_session
        ex_limited_gateway))) = [(EVENT_RateLimitExceeded, ''k1'')]
   \<and> HealthValues (snd (applyRateLimiting (ex_lib_refusing 1) ''k1'' ex_api_session
        ex_limited_gateway)) = [(Throttle, ''-1'')]
   \<and> fst (applyRateLimiting (ex_lib_refusing 2) ''k1'' ex_api_session ex_limited_gateway)
     = (Some (errors_New ''Quota exceeded''), 403)
   \<and> events_of (goroutines (snd (applyRateLimiting (ex_lib_refusing 2) ''k1'' ex_api_session
        ex_limited_gateway))) = [(EVENT_QuotaExceeded, ''k1'')]
   \<and> HealthValues (snd (applyRateLimiting (ex_lib_refusing 2) ''k1'' ex_api_session
        ex_limited_gateway)) = [(QuotaViolation, ''-1'')]
   \<and> fst (applyRateLimiting (ex_lib_refusing 7) ''k1'' ex_api_session ex_limited_gateway)
     = (Some (errors_New ''Access denied''), 403)
   \<and> events_of (goroutines (snd (applyRateLimiting (ex_lib_refusing 7) ''k1'' ex_api_session
        ex_limited_gateway))) = []
   \<and> fst (applyRateLimiting ex_lib ''k1'' ex_api_session ex_limited_gateway) = (None, 200)
   \<and> events_of (goroutines (snd (applyRateLimiting ex_lib ''k1'' ex_api_session
        ex_limited_gateway))) = []"
proof -
  have allowed: "ForwardMessage ex_lib ex_api_session ''k1'' (SessionManager ex_limited_gateway)
      = (True, 0, ex_api_session\<lparr>QuotaRemaining := 6\<rparr>, SessionManager ex_limited_gateway)"
    by (simp add: ex_lib_def ex_ForwardMessage_def ex_api_session_def SessionState_zero_def)
  have split: "r = ((fst (fst r), snd (fst r)), snd r)"
    for r :: "(error option \<times> int) \<times> Gateway"
    by simp
  show ?thesis
    using C7_outcome_by_reason[OF ex_refusing_ForwardMessage[of 1] split]
      C7_outcome_by_reason[OF ex_refusing_ForwardMessage[of 2] split]
      C7_outcome_by_reason[OF ex_refusing_ForwardMessage[of 7] split]
      C7_outcome_by_reason[OF allowed split]
    by (simp add: ex_limited_gateway_quiet prod_eq_iff)
qed

section \<open>C8: resolving a key twice\<close>

text \<open>
  C8, as the specification states it, fails when an entry expires between the two calls,
  which is no write. Three gateways, each resolving \<open>k1\<close> twice. With the session of quota 9
  in the local cache and that of quota 8 in the session store, the first call returns the
  cached session and leaves the state as it is; once the cache entry has expired, the second
  call is served from the session store and returns the other session. With the session of
  quota 8 in the auth store instead, the second call is served from the auth store, and
  returns the other session. With the session of quota 9 in the session store and that of
  quota 8 in the auth store, the first call is served from the session store; once that
  entry has expired, the second call is served from the auth store and returns the other
  session.
\<close>

theorem C8_counterexample:
  "CheckSessionAndIdentityForValidKey ex_spec ''k1'' ex_stale_cache_gateway
     = (ex_quota 9, True, ex_stale_cache_gateway)
   \<and> fst (CheckSessionAndIdentityForValidKey ex_spec ''k1''
           (SessionCache_expire ''k1'' ex_stale_cache_gateway)) = ex_quota 8
   \<and> SessionManager (SessionCache_expire ''k1'' ex_stale_cache_gateway)
       = SessionManager ex_stale_cache_gateway
   \<and> CheckSessionAndIdentityForValidKey ex_spec ''k1'' ex_stale_cache_auth_gateway
       = (ex_quota 9, True, ex_stale_cache_auth_gateway)
   \<and> fst (CheckSessionAndIdentityForValidKey ex_spec ''k1''
           (SessionCache_expire ''k1'' ex_stale_cache_auth_gateway)) = ex_quota 8
   \<and> fst (CheckSessionAndIdentityForValidKey ex_spec ''k1'' ex_stale_store_gateway) = ex_quota 9
   \<and> SessionCache (snd (snd (CheckSessionAndIdentityForValidKey ex_spec ''k1''
           ex_stale_store_gateway))) = SessionCache ex_stale_store_gateway
   \<and> AuthManager (snd (snd (CheckSessionAndIdentityForValidKey ex_spec ''k1''
           ex_stale_store_gateway))) = AuthManager ex_stale_store_gateway
   \<and> fst (CheckSessionAndIdentityForValidKey ex_spec ''k1''
           (SessionManager_expire ''k1''
              (snd (snd (CheckSessionAndIdentityForValidKey ex_spec ''k1''
                 ex_stale_store_gateway))))) = ex_quota 8
   \<and> ex_quota 9 \<noteq> ex_quota 8"
  by (simp add: CheckSessionAndIdentityForValidKey_def checkSessionAndValidateKey_def
        ApplyPolicyIfExists_def GetSessionDetail_def IsKeyAuthorised_def UpdateSession_def
        SessionCache_expire_def SessionManager_expire_def spawn_def Let_def
        ex_stale_cache_gateway_def ex_stale_cache_auth_gateway_def ex_stale_store_gateway_def
        ex_quota_def ex_gateway_def ex_spec_def SessionState_zero_def)

text \<open>
  C8, amended. Resolve a key, let any of the cache writes that this resolution has started
  run (in any order, any number of them, none included), and resolve the key again, nothing
  else having written to the caches, the stores or the policies and no entry of the cache
  or of the store having expired in between: the second resolution returns the same
  session and the same found flag as the first. This holds for
  \<open>CheckSessionAndIdentityForValidKey\<close> and for \<open>checkSessionAndValidateKey\<close>, from every state
  of the gateway, whether the second call is served from the local cache or from the
  session store.
\<close>

theorem C8_resolution_idempotent:
  "(set tasks \<subseteq> set (drop (length (goroutines g))
                      (goroutines (snd (snd (CheckSessionAndIdentityForValidKey t key g)))))
      \<longrightarrow> fst (CheckSessionAndIdentityForValidKey t key
                 (run_goroutines tasks (snd (snd (CheckSessionAndIdentityForValidKey t key g)))))
            = fst (CheckSessionAndIdentityForValidKey t key g)
          \<and> fst (snd (CheckSessionAndIdentityForValidKey t key
                 (run_goroutines tasks (snd (snd (CheckSessionAndIdentityForValidKey t key g))))))
            = fst (snd (CheckSessionAndIdentityForValidKey t key g)))
   \<and> (set tasks \<subseteq> set (drop (length (goroutines g))
                      (goroutines (snd (snd (checkSessionAndValidateKey key t g)))))
      \<longrightarrow> fst (checkSessionAndValidateKey key t
                 (run_goroutines tasks (snd (snd (checkSessionAndValidateKey key t g)))))
            = fst (checkSessionAndValidateKey key t g)
          \<and> fst (snd (checkSessionAndValidateKey key t
                 (run_goroutines tasks (snd (snd (checkSessionAndValidateKey key t g))))))
            = fst (snd (checkSessionAndValidateKey key t g)))"
proof (cases "fst (snd (checkSessionAndValidateKey key t g))")
  case True
  let ?r = "fst (checkSessionAndValidateKey key t g)"
  from found_resolves_to[OF True] have r: "resolves_to key t ?r g" .
  have again: "fst (checkSessionAndValidateKey key t (run_goroutines tasks g')) = ?r
             \<and> fst (snd (checkSessionAndValidateKey key t (run_goroutines tasks g')))"
    if "resolves_to key t ?r g'" and "Policies g' = Policies g"
      and "goroutines g' = goroutines g @ sp"
      and "\<forall>task \<in> set sp. compatible key t (Policies g) ?r task"
      and "set tasks \<subseteq> set (drop (length (goroutines g)) (goroutines g'))"
    for g' sp
  proof -
    from that(3,5) have "set tasks \<subseteq> set sp" by simp
    with that(2,4) have "\<forall>task \<in> set tasks. compatible key t (Policies g') ?r task" by auto
    from run_goroutines_preserves[OF that(1) this] show ?thesis
      by (rule resolves_to_result)
  qed
  from CheckSessionAndIdentityForValidKey_preserves[OF r]
  obtain sp where full: "resolves_to key t ?r (snd (snd (CheckSessionAndIdentityForValidKey t key g)))"
    "Policies (snd (snd (CheckSessionAndIdentityForValidKey t key g))) = Policies g"
    "goroutines (snd (snd (CheckSessionAndIdentityForValidKey t key g))) = goroutines g @ sp"
    "\<forall>task \<in> set sp. compatible key t (Policies g) ?r task"
    by auto
  from checkSessionAndValidateKey_preserves[OF r, of key]
  obtain sp' where base: "resolves_to key t ?r (snd (snd (checkSessionAndValidateKey key t g)))"
    "goroutines (snd (snd (checkSessionAndValidateKey key t g))) = goroutines g @ sp'"
    "\<forall>task \<in> set sp'. compatible key t (Policies g) ?r task"
    by auto
  show ?thesis
    using again[OF full] again[OF base(1) checkSessionAndValidateKey_Policies base(2,3)] True
    by (simp add: CheckSessionAndIdentityForValidKey_base)
next
  case False
  from checkSessionAndValidateKey_miss[OF False]
  have b: "checkSessionAndValidateKey key t g = (SessionState_zero, False, g)" .
  from False have "\<not> fst (snd (CheckSessionAndIdentityForValidKey t key g))"
    by (simp add: CheckSessionAndIdentityForValidKey_base)
  from CheckSessionAndIdentityForValidKey_miss[OF this]
  have f: "CheckSessionAndIdentityForValidKey t key g = (SessionState_zero, False, g)" .
  show ?thesis by (simp add: b f)
qed

theorem C8_witness:
  "fst (CheckSessionAndIdentityForValidKey ex_spec ''k1'' ex_policy_gateway)
     = overlay (ex_policy ''O1'') (SessionState_zero\<lparr>ApplyPolicyID := ''P1''\<rparr>)
   \<and> cached (run_goroutines [SessionCache_Set ''k1'' (SessionState_zero\<lparr>ApplyPolicyID := ''P1''\<rparr>)]
         (snd (snd (CheckSessionAndIdentityForValidKey ex_spec ''k1'' ex_policy_gateway)))) ''k1''
     = Some (SessionState_zero\<lparr>ApplyPolicyID := ''P1''\<rparr>)
   \<and> fst (CheckSessionAndIdentityForValidKey ex_spec ''k1''
         (run_goroutines [SessionCache_Set ''k1'' (SessionState_zero\<lparr>ApplyPolicyID := ''P1''\<rparr>)]
            (snd (snd (CheckSessionAndIdentityForValidKey ex_spec ''k1'' ex_policy_gateway)))))
     = overlay (ex_policy ''O1'') (SessionState_zero\<lparr>ApplyPolicyID := ''P1''\<rparr>)
   \<and> fst (snd (CheckSessionAndIdentityForValidKey ex_spec ''k1''
         (run_goroutines [SessionCache_Set ''k1'' (SessionState_zero\<lparr>ApplyPolicyID := ''P1''\<rparr>)]
            (snd (snd (CheckSessionAndIdentityForValidKey ex_spec ''k1'' ex_policy_gateway))))))"
proof -
  let ?s = "SessionState_zero\<lparr>ApplyPolicyID := ''P1''\<rparr>"
  let ?r = "overlay (ex_policy ''O1'') ?s"
  have nomap: "SessionState.PolicyPerAPI ?r = None"
    by (simp add: overlay_def ex_policy_def)
  have base: "checkSessionAndValidateKey ''k1'' ex_spec ex_policy_gateway
      = (?r, True,
         ex_policy_gateway\<lparr>SessionManager := (''k1'', ?r, 3600) # SessionManager ex_policy_gateway,
           goroutines := [SessionCache_Set ''k1'' ?s]\<rparr>)"
    by (simp add: checkSessionAndValidateKey_def ApplyPolicyIfExists_def GetSessionDetail_def
          UpdateSession_def spawn_def Let_def ex_policy_gateway_def ex_gateway_def ex_spec_def
          ex_policy_def SessionState_zero_def)
  have first: "CheckSessionAndIdentityForValidKey ex_spec ''k1'' ex_policy_gateway
      = (?r, True,
         ex_policy_gateway\<lparr>SessionManager := (''k1'', ?r, 3600) # SessionManager ex_policy_gateway,
           goroutines := [SessionCache_Set ''k1'' ?s]\<rparr>)"
    by (simp add: CheckSessionAndIdentityForValidKey_def base nomap)
  have quiet: "goroutines ex_policy_gateway = []" "\<not> DisableCacheSessionState ex_policy_gateway"
    by (simp_all add: ex_policy_gateway_def ex_gateway_def)
  have tasks: "set [SessionCache_Set ''k1'' ?s]
      \<subseteq> set (drop (length (goroutines ex_policy_gateway))
               (goroutines (snd (snd (CheckSessionAndIdentityForValidKey ex_spec ''k1''
                  ex_policy_gateway)))))"
    by (simp add: first quiet)
  have served: "cached (run_goroutines [SessionCache_Set ''k1'' ?s]
         (snd (snd (CheckSessionAndIdentityForValidKey ex_spec ''k1'' ex_policy_gateway)))) ''k1''
     = Some ?s"
    by (simp add: first cached_def quiet)
  from C8_resolution_idempotent[of "[SessionCache_Set ''k1'' ?s]" ex_policy_gateway ex_spec "''k1''"]
    tasks served
  show ?thesis by (simp add: first)
qed

section \<open>C9: the counters of a refused request are stored\<close>

text \<open>
  C9. With synchronous session writes, whatever the limiter answers, the session as the
  limiter left it is written to the session store under the key (with a TTL of 0), on top
  of what the limiter left in the store, and bound into the request context; this is so
  also for a refused request, whose status is 429 or 403.
\<close>

theorem C9_counters_persisted_before_decision:
  assumes "\<not> UseAsyncSessionWrite g"
    and "ForwardMessage lib s key (SessionManager g) = (fwd, reason, s', store')"
    and "applyRateLimiting lib key s g = ((err, code), g')"
  shows "SessionManager g' = (key, s', 0) # store'
       \<and> GetSessionDetail (SessionManager g') key = (s', True)
       \<and> ctx_SessionData g' = Some s'
       \<and> (\<not> fwd \<longrightarrow> code = 429 \<or> code = 403)"
  using assms
  by (auto simp: applyRateLimiting_def Let_def spawn_def UpdateSession_def GetSessionDetail_def
        split: if_splits)

theorem C9_witness:
  "snd (fst (applyRateLimiting (ex_lib_refusing 1) ''k1'' ex_api_session ex_limited_gateway)) = 429
   \<and> SessionManager (snd (applyRateLimiting (ex_lib_refusing 1) ''k1'' ex_api_session
        ex_limited_gateway))
     = (''k1'', ex_api_session\<lparr>QuotaRemaining := 6\<rparr>, 0) # SessionManager ex_limited_gateway
   \<and> GetSessionDetail (SessionManager (snd (applyRateLimiting (ex_lib_refusing 1) ''k1''
        ex_api_session ex_limited_gateway))) ''k1'' = (ex_api_session\<lparr>QuotaRemaining := 6\<rparr>, True)
   \<and> GetSessionDetail (SessionManager ex_limited_gateway) ''k1'' = (ex_base_session, True)
   \<and> ctx_SessionData (snd (applyRateLimiting (ex_lib_refusing 1) ''k1'' ex_api_session
        ex_limited_gateway)) = Some (ex_api_session\<lparr>QuotaRemaining := 6\<rparr>)"
proof -
  have split: "r = ((fst (fst r), snd (fst r)), snd r)"
    for r :: "(error option \<times> int) \<times> Gateway"
    by simp
  have code: "snd (fst (applyRateLimiting (ex_lib_refusing 1) ''k1'' ex_api_session
      ex_limited_gateway)) = 429"
    by (simp add: applyRateLimiting_def ex_refusing_ForwardMessage ex_limited_gateway_quiet Let_def)
  have before: "GetSessionDetail (SessionManager ex_limited_gateway) ''k1'' = (ex_base_session, True)"
    by (simp add: GetSessionDetail_def ex_limited_gateway_def ex_gateway_def)
  show ?thesis
    using C9_counters_persisted_before_decision[OF ex_limited_gateway_quiet(3)
        ex_refusing_ForwardMessage[of 1] split] code before
    by (simp add: GetSessionDetail_def)
qed

section \<open>C10: the policy loader reports no error\<close>

text \<open>
  C10, as the specification states it, fails at one input: a policy file that is read and
  at which the decoder fails after it has stored a policy. \<open>LoadPoliciesFromFile\<close> returns
  the map with that policy, which is not what it returns for a file that holds the empty
  JSON object, nor what it returns for a file that cannot be read: the caller can tell this
  corrupt file from an empty one and from a missing one.
\<close>

theorem C10_counterexample:
  "snd (ioutil_ReadFile ex_lib_partly_decoded ''policies.json'') = None
   \<and> snd (json_Unmarshal_Policies ex_lib_partly_decoded
            (fst (ioutil_ReadFile ex_lib_partly_decoded ''policies.json'')) (Some Map.empty))
       \<noteq> None
   \<and> fst (LoadPoliciesFromFile ex_lib_partly_decoded ''policies.json'')
       = Some [''P1'' \<mapsto> ex_policy ''O1'']
   \<and> fst (LoadPoliciesFromFile ex_lib_empty_file ''policies.json'') = Some Map.empty
   \<and> fst (LoadPoliciesFromFile ex_lib ''policies.json'') = Some Map.empty
   \<and> fst (LoadPoliciesFromFile ex_lib_partly_decoded ''policies.json'')
       \<noteq> fst (LoadPoliciesFromFile ex_lib_empty_file ''policies.json'')
   \<and> fst (LoadPoliciesFromFile ex_lib_partly_decoded ''policies.json'')
       \<noteq> fst (LoadPoliciesFromFile ex_lib ''policies.json'')"
  by (simp add: LoadPoliciesFromFile_def ex_lib_partly_decoded_def ex_lib_empty_file_def
        ex_lib_def)

text \<open>
  C10, amended. \<open>LoadPoliciesFromFile\<close> returns a map and nothing else, for every path. When
  the file cannot be read, the map is the empty map, not nil, and the failure goes to the
  log. When the file is read, the map is what \<open>json.Unmarshal\<close> left, whether or not it
  failed, and the log gets a line exactly when it failed. So the caller is handed the same
  value for a file that cannot be read as for a file that decodes to the empty map, and
  the same value for a file at which the decoder fails with the map still empty as for a
  file that decodes to the empty map.
\<close>

theorem C10_LoadPoliciesFromFile_amended:
  "(snd (ioutil_ReadFile lib path) \<noteq> None \<longrightarrow>
      fst (LoadPoliciesFromFile lib path) = Some Map.empty
      \<and> snd (LoadPoliciesFromFile lib path) \<noteq> [])
   \<and> (snd (ioutil_ReadFile lib path) = None \<longrightarrow>
        fst (LoadPoliciesFromFile lib path)
          = fst (json_Unmarshal_Policies lib (fst (ioutil_ReadFile lib path)) (Some Map.empty))
        \<and> (snd (LoadPoliciesFromFile lib path) \<noteq> []) =
            (snd (json_Unmarshal_Policies lib (fst (ioutil_ReadFile lib path)) (Some Map.empty))
               \<noteq> None))
   \<and> (snd (ioutil_ReadFile lib path) \<noteq> None
        \<and> ioutil_ReadFile lib2 path2 = (contents2, None)
        \<and> json_Unmarshal_Policies lib2 contents2 (Some Map.empty) = (Some Map.empty, None)
      \<longrightarrow> fst (LoadPoliciesFromFile lib path) = fst (LoadPoliciesFromFile lib2 path2))
   \<and> (ioutil_ReadFile lib path = (contents, None)
        \<and> json_Unmarshal_Policies lib contents (Some Map.empty) = (Some Map.empty, Some mErr)
        \<and> ioutil_ReadFile lib2 path2 = (contents2, None)
        \<and> json_Unmarshal_Policies lib2 contents2 (Some Map.empty) = (Some Map.empty, None)
      \<longrightarrow> fst (LoadPoliciesFromFile lib path) = fst (LoadPoliciesFromFile lib2 path2)
          \<and> snd (LoadPoliciesFromFile lib path) \<noteq> []
          \<and> snd (LoadPoliciesFromFile lib2 path2) = [])"
  by (auto simp: LoadPoliciesFromFile_def Let_def split: prod.splits)

theorem C10_witness:
  "fst (LoadPoliciesFromFile ex_lib ''policies.json'') = Some Map.empty
   \<and> snd (LoadPoliciesFromFile ex_lib ''policies.json'') \<noteq> []
   \<and> fst (LoadPoliciesFromFile ex_lib_corrupt_file ''policies.json'') = Some Map.empty
   \<and> snd (LoadPoliciesFromFile ex_lib_corrupt_file ''policies.json'') \<noteq> []
   \<and> fst (LoadPoliciesFromFile ex_lib_empty_file ''policies.json'') = Some Map.empty
   \<and> snd (LoadPoliciesFromFile ex_lib_empty_file ''policies.json'') = []
   \<and> fst (LoadPoliciesFromFile ex_lib ''policies.json'')
       = fst (LoadPoliciesFromFile ex_lib_empty_file ''policies.json'')
   \<and> fst (LoadPoliciesFromFile ex_lib_corrupt_file ''policies.json'')
       = fst (LoadPoliciesFromFile ex_lib_empty_file ''policies.json'')"
proof -
  have missing: "snd (ioutil_ReadFile ex_lib ''policies.json'') \<noteq> None"
    by (simp add: ex_lib_def)
  have corrupt: "ioutil_ReadFile ex_lib_corrupt_file ''policies.json'' = (''{'', None)"
    "json_Unmarshal_Policies ex_lib_corrupt_file ''{'' (Some Map.empty)
       = (Some Map.empty, Some (lib_error ''unexpected end of JSON input''))"
    by (simp_all add: ex_lib_corrupt_file_def ex_lib_def)
  have empty: "ioutil_ReadFile ex_lib_empty_file ''policies.json'' = (''{}'', None)"
    "json_Unmarshal_Policies ex_lib_empty_file ''{}'' (Some Map.empty) = (Some Map.empty, None)"
    by (simp_all add: ex_lib_empty_file_def ex_lib_def)
  show ?thesis
    using missing corrupt empty
      C10_LoadPoliciesFromFile_amended[where lib = ex_lib and path = "''policies.json''"
        and ?lib2.0 = ex_lib_empty_file and ?path2.0 = "''policies.json''" and ?contents2.0 = "''{}''"
        and contents = "''''" and mErr = "lib_error ''no such file or directory''"]
      C10_LoadPoliciesFromFile_amended[where lib = ex_lib_corrupt_file
        and path = "''policies.json''" and ?lib2.0 = ex_lib_empty_file
        and ?path2.0 = "''policies.json''" and ?contents2.0 = "''{}''" and contents = "''{''"
        and mErr = "lib_error ''unexpected end of JSON input''"]
    by auto
qed

end
